theory Spec2Isabelle
  imports Complex_Main "HOL-Library.Multiset" "HOL-Library.Log_Nat"
begin

section \<open>Numbers\<close>

text \<open>
  The nutrition engine of @cloe/lit-ai: the Lit action \<^verbatim>\<open>food-analysis.js\<close>
  (provider invoker, fan-out, aggregator, signer), the class
  \<^verbatim>\<open>DecentralizedAIService\<close> and the caller \<^verbatim>\<open>analyzeImage\<close> of
  \<^verbatim>\<open>AddMeal.tsx\<close>.

  A JavaScript number is an IEEE 754 double: a finite value, one of the two infinities,
  or \<^verbatim>\<open>NaN\<close>. A finite double is given by the rational it stands for; the two zeros
  are one value here, since the code never divides by a measure and prints none.
\<close>

datatype number = Finite rat | PosInfinity | NegInfinity | NaN

text \<open>\<open>ilog2 x\<close> is the exponent of \<open>x \<noteq> 0\<close>: the \<open>e\<close> with \<open>2\<^sup>e \<le> \<bar>x\<bar> < 2\<^sup>e\<^sup>+\<^sup>1\<close>.\<close>

definition ilog2 :: "rat \<Rightarrow> int" where
  "ilog2 x =
     (let (p, q) = quotient_of \<bar>x\<bar>;
          d = bitlen p - bitlen q
      in if 2 powi d \<le> \<bar>x\<bar> then d else d - 1)"

text \<open>The nearest integer, a tie going to the even one.\<close>

definition round_half_even :: "rat \<Rightarrow> int" where
  "round_half_even x =
     (let n = \<lfloor>x\<rfloor>; r = x - of_int n
      in if r < 1 / 2 then n
         else if 1 / 2 < r then n + 1
         else if even n then n else n + 1)"

text \<open>
  The double nearest to a rational (round to nearest, ties to even): 53 significant
  bits, the spacing of the subnormals below \<open>2\<^sup>-\<^sup>1\<^sup>0\<^sup>2\<^sup>2\<close>, and an infinity when the
  rounded value reaches \<open>2\<^sup>1\<^sup>0\<^sup>2\<^sup>4\<close>.
\<close>

definition to_double :: "rat \<Rightarrow> number" where
  "to_double x =
     (if x = 0 then Finite 0
      else
        (let ulp = 2 powi (max (ilog2 x) (- 1022) - 52);
             y = of_int (round_half_even (x / ulp)) * ulp
         in if 1024 \<le> ilog2 y then (if 0 < x then PosInfinity else NegInfinity)
            else Finite y))"

text \<open>The operator \<^verbatim>\<open>+\<close> on two numbers.\<close>

fun js_plus :: "number \<Rightarrow> number \<Rightarrow> number" where
  "js_plus (Finite a) (Finite b) = to_double (a + b)"
| "js_plus NaN _ = NaN"
| "js_plus _ NaN = NaN"
| "js_plus PosInfinity NegInfinity = NaN"
| "js_plus NegInfinity PosInfinity = NaN"
| "js_plus PosInfinity _ = PosInfinity"
| "js_plus _ PosInfinity = PosInfinity"
| "js_plus NegInfinity _ = NegInfinity"
| "js_plus _ NegInfinity = NegInfinity"

text \<open>
  The operators \<^verbatim>\<open>*\<close> and \<^verbatim>\<open>/\<close> with a positive literal on the right, which is
  how the code uses them (\<^verbatim>\<open>/ 2\<close>, \<^verbatim>\<open>* 10\<close>, \<^verbatim>\<open>/ 10\<close>).
\<close>

fun js_times :: "number \<Rightarrow> rat \<Rightarrow> number" where
  "js_times (Finite a) c = to_double (a * c)"
| "js_times x c = x"

fun js_divide :: "number \<Rightarrow> rat \<Rightarrow> number" where
  "js_divide (Finite a) c = to_double (a / c)"
| "js_divide x c = x"

text \<open>\<^verbatim>\<open>Math.round\<close>: the nearest integer, a tie going up.\<close>

fun Math_round :: "number \<Rightarrow> number" where
  "Math_round (Finite x) = Finite (of_int \<lfloor>x + 1 / 2\<rfloor>)"
| "Math_round x = x"

text \<open>The number a decimal literal of a JSON text parses to.\<close>

definition lit :: "rat \<Rightarrow> number" where
  "lit x = to_double x"

section \<open>Data model\<close>

text \<open>
  A JavaScript string is the list of its UTF-16 code units. The text of the code's own
  messages, model names and keys is ASCII and written as an Isabelle string.

  A provider's item is modelled well-typed: it has a string \<^verbatim>\<open>name\<close>, a string
  \<^verbatim>\<open>unit\<close> and numbers for its measures, as the prompt of the action requests.
\<close>

type_synonym js_string = "nat list"

record NutritionInfo =
  calories :: number
  carbs :: number
  fats :: number
  proteins :: number

text \<open>An item of a provider's answer: the four measures and name, quantity, unit.\<close>

record item = NutritionInfo +
  name :: js_string
  quantity :: number
  unit :: js_string

text \<open>\<^verbatim>\<open>FoodItem\<close> of @cloe/types, as the service builds it: an item with an id.\<close>

record FoodItem = item +
  id' :: string

text \<open>
  The object a provider's answer parses to, which is also the object the aggregator
  returns (\<^verbatim>\<open>aggregateResults\<close> returns \<^verbatim>\<open>results[0]\<close> itself on one result).
  A field that is absent is \<open>None\<close>; \<^verbatim>\<open>items\<close>, when the object has it, is an array.
\<close>

record analysis =
  items :: "item list option"
  totalNutrition :: "NutritionInfo option"
  providersUsed :: "nat option"
  confidence :: "string option"

section \<open>The outside world\<close>

text \<open>
  What the code does not decide is read from a \<open>world\<close>: what OpenRouter answers to
  a request and how long it takes, what the Lit network and the ethers library do, the
  clock and the random ids, and the string built-ins \<^verbatim>\<open>toLowerCase\<close> and
  \<^verbatim>\<open>trim\<close> of the JavaScript runtime. An exception is a value: \<open>Inl message\<close> of a
  sum is a \<^verbatim>\<open>throw\<close> (a rejected promise), \<open>Inr v\<close> a normal return.
\<close>

text \<open>
  The request sent to OpenRouter. The two callers differ in the \<^verbatim>\<open>X-Title\<close> header
  and in the model.
\<close>

record request =
  title :: string
  model :: string
  authorization :: string
  image :: string

text \<open>
  What \<^verbatim>\<open>JSON.parse\<close> makes of the content once the code fences are stripped and
  the text trimmed: a syntax error, the value \<^verbatim>\<open>null\<close>, or another value, read as
  an object (one that lacks a field, or is no object at all, has \<open>None\<close> there).
\<close>

datatype parsed = SyntaxError string | JsonNull | Json analysis

text \<open>
  The answer to one \<^verbatim>\<open>fetch\<close>: the promise rejects; the response is not ok (with
  its status, as text); the body is not JSON or has no \<^verbatim>\<open>choices[0].message.content\<close>
  string; or there is content.
\<close>

datatype response =
    FetchRejects string
  | HttpError string
  | BadBody string
  | Content parsed

datatype wallet = Wallet string | RandomWallet

record world =
  toLowerCase :: "js_string \<Rightarrow> js_string"
  trim :: "js_string \<Rightarrow> js_string"
  openrouter :: "request \<Rightarrow> response"
  latency :: "request \<Rightarrow> nat"
  signEcdsa :: "analysis \<Rightarrow> string + string"
  now :: nat
  random_id :: "nat \<Rightarrow> string"
  new_Wallet :: "string \<Rightarrow> string + wallet"
  lit_connect :: "string option"
  lit_disconnect :: "string option"
  createSiweMessage :: "wallet \<Rightarrow> string + string"
  executeJs :: "string option"

text \<open>What the code does to the outside, in order.\<close>

datatype event = Fetch request | Console string | LitNetwork string

section \<open>The aggregator\<close>

text \<open>
  \<^verbatim>\<open>itemMap\<close> is a JavaScript \<^verbatim>\<open>Map\<close>: it keeps its keys in insertion order, and
  \<^verbatim>\<open>set\<close> on a key that is present replaces the value where the key stands.
\<close>

type_synonym itemMap = "(js_string \<times> item) list"

fun Map_set :: "itemMap \<Rightarrow> js_string \<Rightarrow> item \<Rightarrow> itemMap" where
  "Map_set [] k v = [(k, v)]"
| "Map_set ((k', v') # m) k v =
     (if k' = k then (k, v) # m else (k', v') # Map_set m k v)"

definition Map_get :: "itemMap \<Rightarrow> js_string \<Rightarrow> item option" where
  "Map_get m k = map_of m k"

definition Map_values :: "itemMap \<Rightarrow> item list" where
  "Map_values m = map snd m"

text \<open>The key of an item (line 122).\<close>

definition item_key :: "world \<Rightarrow> item \<Rightarrow> js_string" where
  "item_key w it = trim w (toLowerCase w (name it))"

text \<open>The object built when the key is already in the map (lines 126 to 134).\<close>

definition average_item :: "item \<Rightarrow> item \<Rightarrow> item" where
  "average_item existing it =
     \<lparr> calories = Math_round (js_divide (js_plus (calories existing) (calories it)) 2),
       carbs =
         js_divide
           (Math_round (js_times (js_divide (js_plus (carbs existing) (carbs it)) 2) 10)) 10,
       fats =
         js_divide
           (Math_round (js_times (js_divide (js_plus (fats existing) (fats it)) 2) 10)) 10,
       proteins =
         js_divide
           (Math_round
              (js_times (js_divide (js_plus (proteins existing) (proteins it)) 2) 10)) 10,
       name = name it,
       quantity = Math_round (js_divide (js_plus (quantity existing) (quantity it)) 2),
       unit = unit existing \<rparr>"

text \<open>The body of the inner \<^verbatim>\<open>forEach\<close>: one item put into the map.\<close>

definition put_item :: "world \<Rightarrow> itemMap \<Rightarrow> item \<Rightarrow> itemMap" where
  "put_item w m it =
     (let key = item_key w it in
      case Map_get m key of
        Some existing \<Rightarrow> Map_set m key (average_item existing it)
      | None \<Rightarrow> Map_set m key it)"

text \<open>The body of the outer \<^verbatim>\<open>forEach\<close>: a result without \<^verbatim>\<open>items\<close> is skipped.\<close>

definition put_result :: "world \<Rightarrow> itemMap \<Rightarrow> analysis \<Rightarrow> itemMap" where
  "put_result w m result =
     (case items result of
        Some its \<Rightarrow> foldl (put_item w) m its
      | None \<Rightarrow> m)"

text \<open>The function and the start value of the \<^verbatim>\<open>reduce\<close> (lines 145 to 150).\<close>

definition add_nutrition :: "NutritionInfo \<Rightarrow> item \<Rightarrow> NutritionInfo" where
  "add_nutrition acc it =
     \<lparr> calories = js_plus (calories acc) (calories it),
       carbs = js_plus (carbs acc) (carbs it),
       fats = js_plus (fats acc) (fats it),
       proteins = js_plus (proteins acc) (proteins it) \<rparr>"

definition zero_nutrition :: NutritionInfo where
  "zero_nutrition =
     \<lparr> calories = Finite 0, carbs = Finite 0, fats = Finite 0, proteins = Finite 0 \<rparr>"

definition aggregateResults :: "world \<Rightarrow> analysis list \<Rightarrow> analysis" where
  "aggregateResults w results =
     (case results of
        [r] \<Rightarrow> r
      | _ \<Rightarrow>
        (let itemMap = foldl (put_result w) [] results;
             finalItems = Map_values itemMap;
             total = foldl add_nutrition zero_nutrition finalItems
         in \<lparr> items = Some finalItems,
              totalNutrition = Some total,
              providersUsed = Some (length results),
              confidence = Some (if length results \<ge> 2 then ''high'' else ''medium'') \<rparr>))"

section \<open>The provider invoker\<close>

text \<open>
  The \<^verbatim>\<open>try\<close> block shared by \<^verbatim>\<open>callOpenRouter\<close> and \<^verbatim>\<open>analyzeFoodFallback\<close>:
  fetch, check \<^verbatim>\<open>response.ok\<close>, read the content, parse it. \<open>Inr None\<close> is the
  parsed value \<^verbatim>\<open>null\<close>.
\<close>

definition fetch_and_parse :: "response \<Rightarrow> string + analysis option" where
  "fetch_and_parse r =
     (case r of
        FetchRejects msg \<Rightarrow> Inl msg
      | HttpError status \<Rightarrow> Inl (''HTTP error! status: '' @ status)
      | BadBody msg \<Rightarrow> Inl msg
      | Content (SyntaxError msg) \<Rightarrow> Inl msg
      | Content JsonNull \<Rightarrow> Inr None
      | Content (Json a) \<Rightarrow> Inr (Some a))"

definition action_request :: "string \<Rightarrow> string \<Rightarrow> string \<Rightarrow> request" where
  "action_request m apiKey imageBase64 =
     \<lparr> title = ''Cloe - Decentralized AI Health Assistant'', model = m,
       authorization = apiKey, image = imageBase64 \<rparr>"

text \<open>
  \<^verbatim>\<open>callOpenRouter\<close> is an async function. It runs up to its first \<^verbatim>\<open>await\<close>, where
  the fetch has been started, and goes on when the answer is there. What it does then:
  its promise (the first component) is \<open>Inl\<close> when it rejects; the \<^verbatim>\<open>catch\<close> logs
  and returns \<^verbatim>\<open>null\<close>.
\<close>

definition callOpenRouter_settle ::
  "world \<Rightarrow> string \<Rightarrow> request \<Rightarrow> (string + analysis option) \<times> event list" where
  "callOpenRouter_settle w m req =
     (case fetch_and_parse (openrouter w req) of
        Inl error \<Rightarrow> (Inr None, [Console (''Error with '' @ m @ '':'')])
      | Inr v \<Rightarrow> (Inr v, []))"

text \<open>One call, awaited on its own.\<close>

definition callOpenRouter ::
  "world \<Rightarrow> string \<Rightarrow> string \<Rightarrow> string \<Rightarrow> (string + analysis option) \<times> event list" where
  "callOpenRouter w imageBase64 m apiKey =
     (let req = action_request m apiKey imageBase64;
          (v, evs) = callOpenRouter_settle w m req
      in (v, Fetch req # evs))"

section \<open>The fan-out and the Lit action\<close>

datatype 'a settled = Fulfilled 'a | Rejected string

text \<open>\<^verbatim>\<open>Promise.allSettled\<close>: every promise is awaited, none stops the others.\<close>

definition allSettled :: "(string + 'a) list \<Rightarrow> 'a settled list" where
  "allSettled ps = map (\<lambda>p. case p of Inl reason \<Rightarrow> Rejected reason | Inr v \<Rightarrow> Fulfilled v) ps"

text \<open>
  The test of the filter (line 102), together with the value the \<^verbatim>\<open>map\<close> of line
  103 reads: \<open>None\<close> when the result is filtered out.
\<close>

fun valid_value :: "analysis option settled \<Rightarrow> analysis option" where
  "valid_value (Fulfilled v) = v"
| "valid_value (Rejected reason) = None"

text \<open>
  The fan-out (lines 96 to 98). The \<^verbatim>\<open>map\<close> starts every call, so every fetch is
  under way before any call goes on; the calls then go on as their answers arrive, in
  the order of the latencies (the earlier of the list first when two are equal).
  \<^verbatim>\<open>Promise.allSettled\<close> gives the outcomes in the order of the list.
\<close>

definition dispatch ::
  "world \<Rightarrow> string \<Rightarrow> string \<Rightarrow> string list \<Rightarrow> analysis option settled list \<times> event list" where
  "dispatch w imageBase64 apiKey models =
     (let request_of = (\<lambda>m. action_request m apiKey imageBase64);
          settle = (\<lambda>m. callOpenRouter_settle w m (request_of m));
          arrivals = sort_key (\<lambda>m. latency w (request_of m)) models
      in (allSettled (map (\<lambda>m. fst (settle m)) models),
          map (\<lambda>m. Fetch (request_of m)) models @ concat (map (\<lambda>m. snd (settle m)) arrivals)))"

definition validResults :: "analysis option settled list \<Rightarrow> analysis list" where
  "validResults results = List.map_filter valid_value results"

text \<open>
  What the action returns: with \<^verbatim>\<open>success: true\<close> the data, the signature, the
  timestamp and the network; with \<^verbatim>\<open>success: false\<close> the error and the timestamp.
\<close>

datatype action_result =
    ActionSuccess analysis "string option" nat string
  | ActionFailure string nat

text \<open>
  The action. \<^verbatim>\<open>food-analysis.js\<close> signs the aggregated result; the copy of the
  action that \<^verbatim>\<open>LitAIClient.getFoodAnalysisCode\<close> holds has another provider list
  and does not sign. \<open>signing\<close> and \<open>models\<close> tell the two apart.
\<close>

definition foodAnalysisAction ::
  "world \<Rightarrow> bool \<Rightarrow> string list \<Rightarrow> string \<Rightarrow> string \<Rightarrow> action_result \<times> event list" where
  "foodAnalysisAction w signing models imageBase64 apiKey =
     (let (results, evs) = dispatch w imageBase64 apiKey models;
          valid = validResults results
      in if length valid = 0 then (ActionFailure ''All AI providers failed'' (now w), evs)
         else
           (let aggregatedResult = aggregateResults w valid in
            if signing then
              (case signEcdsa w aggregatedResult of
                 Inl msg \<Rightarrow> (ActionFailure msg (now w), evs)
               | Inr sig \<Rightarrow>
                   (ActionSuccess aggregatedResult (Some sig) (now w) ''lit-protocol'', evs))
            else (ActionSuccess aggregatedResult None (now w) ''lit-protocol'', evs)))"

definition aiProviders :: "string list" where
  "aiProviders = [''google/gemini-2.0-flash-exp'', ''anthropic/claude-3.5-sonnet'', ''openai/gpt-4o'']"

definition food_analysis_js :: "world \<Rightarrow> string \<Rightarrow> string \<Rightarrow> action_result \<times> event list" where
  "food_analysis_js w imageBase64 apiKey = foodAnalysisAction w True aiProviders imageBase64 apiKey"

text \<open>The provider list of the copy in \<^verbatim>\<open>getFoodAnalysisCode\<close>.\<close>

definition embedded_aiProviders :: "string list" where
  "embedded_aiProviders = [''google/gemini-2.5-pro'', ''anthropic/claude-3.5-sonnet'']"

definition getFoodAnalysisCode :: "world \<Rightarrow> string \<Rightarrow> string \<Rightarrow> action_result \<times> event list" where
  "getFoodAnalysisCode w imageBase64 apiKey =
     foodAnalysisAction w False embedded_aiProviders imageBase64 apiKey"

section \<open>The service\<close>

text \<open>
  \<^verbatim>\<open>DecentralizedAnalysisResult\<close>. Its fields carry a prime, the plain names
  being those of the provider's object.
\<close>

record DecentralizedAnalysisResult =
  items' :: "FoodItem list"
  totalNutrition' :: "NutritionInfo option"
  providersUsed' :: nat
  confidence' :: string
  timestamp' :: nat
  network' :: string
  signature' :: "string option"

text \<open>
  The state of a \<^verbatim>\<open>DecentralizedAIService\<close>: the wallet, and the node client of its
  \<^verbatim>\<open>LitAIClient\<close> (\<open>None\<close> is \<^verbatim>\<open>null\<close>, \<open>Some ready\<close> a client with its flag).
\<close>

record service =
  wallet :: "wallet option"
  litNodeClient :: "bool option"

definition new_service :: service where
  "new_service = \<lparr> wallet = None, litNodeClient = None \<rparr>"

text \<open>\<^verbatim>\<open>LitAIClient.connect\<close>: a client that is ready is kept.\<close>

definition connect :: "world \<Rightarrow> service \<Rightarrow> (string + unit) \<times> service" where
  "connect w s =
     (if litNodeClient s = Some True then (Inr (), s)
      else case lit_connect w of
        Some msg \<Rightarrow> (Inl msg, s\<lparr>litNodeClient := Some False\<rparr>)
      | None \<Rightarrow> (Inr (), s\<lparr>litNodeClient := Some True\<rparr>))"

text \<open>An empty private key is falsy, as an absent one.\<close>

definition initialize :: "world \<Rightarrow> string option \<Rightarrow> service \<Rightarrow> (string + unit) \<times> service" where
  "initialize w privateKey s =
     (case connect w s of
        (Inl msg, s1) \<Rightarrow> (Inl msg, s1)
      | (Inr _, s1) \<Rightarrow>
          (if privateKey \<noteq> None \<and> privateKey \<noteq> Some []
           then (case new_Wallet w (the privateKey) of
                   Inl msg \<Rightarrow> (Inl msg, s1)
                 | Inr wl \<Rightarrow> (Inr (), s1\<lparr>wallet := Some wl\<rparr>))
           else (Inr (), s1\<lparr>wallet := Some RandomWallet\<rparr>)))"

definition disconnect :: "world \<Rightarrow> service \<Rightarrow> (string + unit) \<times> service" where
  "disconnect w s =
     (if litNodeClient s \<noteq> None \<and> lit_disconnect w \<noteq> None
      then (Inl (the (lit_disconnect w)), s)
      else (Inr (), s\<lparr>litNodeClient := None, wallet := None\<rparr>))"

text \<open>
  \<^verbatim>\<open>LitAIClient.createAuthSig\<close>: with no node client the optional call yields
  \<^verbatim>\<open>undefined\<close> (\<open>None\<close>) and calls nothing.
\<close>

definition createAuthSig :: "world \<Rightarrow> service \<Rightarrow> wallet \<Rightarrow> (string + string option) \<times> event list" where
  "createAuthSig w s wl =
     (if litNodeClient s = None then (Inr None, [])
      else case createSiweMessage w wl of
        Inl msg \<Rightarrow> (Inl msg, [LitNetwork ''createSiweMessage''])
      | Inr sig \<Rightarrow> (Inr (Some sig), [LitNetwork ''createSiweMessage'']))"

text \<open>\<^verbatim>\<open>LitAIClient.analyzeFoodImage\<close>: runs the action it holds on the Lit network.\<close>

definition analyzeFoodImage ::
  "world \<Rightarrow> service \<Rightarrow> string \<Rightarrow> string \<Rightarrow> (string + action_result) \<times> event list" where
  "analyzeFoodImage w s imageBase64 apiKey =
     (if litNodeClient s \<noteq> Some True then (Inl ''Lit client not connected'', [])
      else case executeJs w of
        Some msg \<Rightarrow>
          (Inl (''Failed to analyze food image: '' @ msg),
           [LitNetwork ''executeJs'', Console ''Error executing Lit Action:''])
      | None \<Rightarrow>
          (let (result, evs) = getFoodAnalysisCode w imageBase64 apiKey
           in (Inr result, LitNetwork ''executeJs'' # evs)))"

text \<open>The \<^verbatim>\<open>map\<close> that copies each item and gives it an id (lines 60 to 69).\<close>

definition with_ids :: "world \<Rightarrow> item list \<Rightarrow> FoodItem list" where
  "with_ids w its =
     map (\<lambda>(i, it).
            \<lparr> calories = calories it, carbs = carbs it, fats = fats it,
              proteins = proteins it, name = name it, quantity = quantity it,
              unit = unit it, id' = random_id w i \<rparr>)
         (enumerate 0 its)"

text \<open>
  The messages of the type errors: reading \<^verbatim>\<open>items.map\<close> of an object that has no
  \<^verbatim>\<open>items\<close>, and reading \<^verbatim>\<open>items\<close> of \<^verbatim>\<open>null\<close>.
\<close>

definition TypeError_map :: string where
  "TypeError_map = ''Cannot read properties of undefined (reading 'map')''"

definition TypeError_items :: string where
  "TypeError_items = ''Cannot read properties of null (reading 'items')''"

text \<open>The \<^verbatim>\<open>try\<close> block of \<^verbatim>\<open>analyzeFood\<close> (lines 41 to 78).\<close>

definition analyzeFood_try ::
  "world \<Rightarrow> service \<Rightarrow> wallet \<Rightarrow> string \<Rightarrow> string \<Rightarrow>
     (string + DecentralizedAnalysisResult) \<times> event list" where
  "analyzeFood_try w s wl imageBase64 openRouterApiKey =
     (case createAuthSig w s wl of
        (Inl msg, evs) \<Rightarrow> (Inl msg, evs)
      | (Inr authSig, evs) \<Rightarrow>
          (case analyzeFoodImage w s imageBase64 openRouterApiKey of
             (Inl msg, evs') \<Rightarrow> (Inl msg, evs @ evs')
           | (Inr (ActionFailure error t), evs') \<Rightarrow>
               (Inl (if error \<noteq> [] then error else ''Analysis failed''), evs @ evs')
           | (Inr (ActionSuccess data sig t net), evs') \<Rightarrow>
               (case items data of
                  None \<Rightarrow> (Inl TypeError_map, evs @ evs')
                | Some its \<Rightarrow>
                    (Inr \<lparr> items' = with_ids w its,
                           totalNutrition' = totalNutrition data,
                           providersUsed' =
                             (case providersUsed data of
                                None \<Rightarrow> 1 | Some n \<Rightarrow> if n = 0 then 1 else n),
                           confidence' =
                             (case confidence data of
                                None \<Rightarrow> ''medium'' | Some c \<Rightarrow> if c = [] then ''medium'' else c),
                           timestamp' = t,
                           network' = net,
                           signature' = sig \<rparr>, evs @ evs'))))"

definition analyzeFood ::
  "world \<Rightarrow> service \<Rightarrow> string \<Rightarrow> string \<Rightarrow>
     (string + DecentralizedAnalysisResult) \<times> event list" where
  "analyzeFood w s imageBase64 openRouterApiKey =
     (case wallet s of
        None \<Rightarrow> (Inl ''Service not initialized. Call initialize() first.'', [])
      | Some wl \<Rightarrow>
          (case analyzeFood_try w s wl imageBase64 openRouterApiKey of
             (Inl msg, evs) \<Rightarrow>
               (Inl (''Failed to analyze food: '' @ msg),
                evs @ [Console ''Decentralized AI analysis failed:''])
           | (Inr r, evs) \<Rightarrow> (Inr r, evs)))"

definition getWalletAddress :: "service \<Rightarrow> wallet option" where
  "getWalletAddress s = wallet s"

definition fallback_request :: "string \<Rightarrow> string \<Rightarrow> request" where
  "fallback_request apiKey imageBase64 =
     \<lparr> title = ''Cloe - AI Health Assistant (Fallback)'', model = ''google/gemini-2.5-pro'',
       authorization = apiKey, image = imageBase64 \<rparr>"

definition analyzeFoodFallback ::
  "world \<Rightarrow> string \<Rightarrow> string \<Rightarrow> (string + DecentralizedAnalysisResult) \<times> event list" where
  "analyzeFoodFallback w imageBase64 openRouterApiKey =
     (let req = fallback_request openRouterApiKey imageBase64;
          evs = [Console ''Using fallback centralized analysis'', Fetch req]
      in case fetch_and_parse (openrouter w req) of
           Inl msg \<Rightarrow> (Inl (''Fallback analysis failed: '' @ msg), evs)
         | Inr None \<Rightarrow> (Inl (''Fallback analysis failed: '' @ TypeError_items), evs)
         | Inr (Some result) \<Rightarrow>
             (case items result of
                None \<Rightarrow> (Inl (''Fallback analysis failed: '' @ TypeError_map), evs)
              | Some its \<Rightarrow>
                  (Inr \<lparr> items' = with_ids w its,
                         totalNutrition' = totalNutrition result,
                         providersUsed' = 1,
                         confidence' = ''low'',
                         timestamp' = now w,
                         network' = ''centralized-fallback'',
                         signature' = None \<rparr>, evs)))"

section \<open>The caller\<close>

record analysisMetadata =
  meta_providersUsed :: "nat option"
  meta_confidence :: "string option"
  meta_network :: "string option"

text \<open>The state of the \<^verbatim>\<open>AddMeal\<close> component that \<^verbatim>\<open>analyzeImage\<close> sets.\<close>

record AddMeal =
  isCapturing :: bool
  isAnalyzing :: bool
  foodItems :: "FoodItem list"
  error :: "string option"
  metadata :: analysisMetadata

definition metadata_of :: "DecentralizedAnalysisResult \<Rightarrow> analysisMetadata" where
  "metadata_of r =
     \<lparr> meta_providersUsed = Some (providersUsed' r),
       meta_confidence = Some (confidence' r),
       meta_network = Some (network' r) \<rparr>"

definition fallback_metadata :: analysisMetadata where
  "fallback_metadata =
     \<lparr> meta_providersUsed = Some 1,
       meta_confidence = Some ''low'',
       meta_network = Some ''centralized-fallback'' \<rparr>"

text \<open>
  The \<^verbatim>\<open>try\<close> block of \<^verbatim>\<open>analyzeImage\<close> (lines 79 to 109): the result whose items
  are shown and the metadata that is set, or the exception. \<open>apiKey\<close> is what local
  storage holds, \<open>aiService\<close> the service of the component, if it has one.
\<close>

definition analyzeImage_try ::
  "world \<Rightarrow> string option \<Rightarrow> service option \<Rightarrow> string \<Rightarrow>
     (string + DecentralizedAnalysisResult \<times> analysisMetadata) \<times> event list" where
  "analyzeImage_try w apiKey aiService base64 =
     (if apiKey = None \<or> apiKey = Some [] then (Inl ''OpenRouter API key not found'', [])
      else case aiService of
        None \<Rightarrow> (Inl ''AI service not available'', [])
      | Some s \<Rightarrow>
          (case analyzeFood w s base64 (the apiKey) of
             (Inr result, evs) \<Rightarrow> (Inr (result, metadata_of result), evs)
           | (Inl litError, evs) \<Rightarrow>
               (case analyzeFoodFallback w base64 (the apiKey) of
                  (Inr result, evs') \<Rightarrow>
                    (Inr (result, fallback_metadata),
                     evs @ [Console ''Lit Protocol analysis failed, using fallback:''] @ evs')
                | (Inl msg, evs') \<Rightarrow>
                    (Inl msg,
                     evs @ [Console ''Lit Protocol analysis failed, using fallback:''] @ evs'))))"

definition analyzeImage ::
  "world \<Rightarrow> string option \<Rightarrow> service option \<Rightarrow> string \<Rightarrow> AddMeal \<Rightarrow> AddMeal \<times> event list" where
  "analyzeImage w apiKey aiService base64 ui =
     (let ui1 = ui\<lparr>isAnalyzing := True, isCapturing := False, error := None\<rparr> in
      case analyzeImage_try w apiKey aiService base64 of
        (Inr (result, meta), evs) \<Rightarrow>
          (ui1\<lparr>metadata := meta, foodItems := items' result, isAnalyzing := False\<rparr>, evs)
      | (Inl err, evs) \<Rightarrow>
          (ui1\<lparr>error := Some ''Failed to analyze image. Please try again.'',
               isAnalyzing := False\<rparr>, evs @ [Console err]))"

section \<open>Notions used to state the properties\<close>

text \<open>The items of all results, in the order in which the aggregator visits them.\<close>

definition reported_items :: "analysis list \<Rightarrow> item list" where
  "reported_items results =
     concat (map (\<lambda>r. case items r of Some its \<Rightarrow> its | None \<Rightarrow> []) results)"

text \<open>The items of a list that have a given normalized key, in their order.\<close>

definition with_key :: "world \<Rightarrow> js_string \<Rightarrow> item list \<Rightarrow> item list" where
  "with_key w k its = filter (\<lambda>it. item_key w it = k) its"

text \<open>
  The running pairwise average of a sequence of items: the first item as it is, each
  later one averaged with what is there.
\<close>

fun running_average :: "item option \<Rightarrow> item list \<Rightarrow> item option" where
  "running_average acc [] = acc"
| "running_average None (it # its) = running_average (Some it) its"
| "running_average (Some existing) (it # its) =
     running_average (Some (average_item existing it)) its"

text \<open>The keys of a list of items, each once, in the order of their first occurrence.\<close>

definition first_keys :: "world \<Rightarrow> item list \<Rightarrow> js_string list" where
  "first_keys w its = rev (remdups (rev (map (item_key w) its)))"

text \<open>
  The merged item list, said from the reported items alone: one item for each key, in
  the order in which the keys first occur, the running average of the items reported
  under that key.
\<close>

definition merged_items :: "world \<Rightarrow> analysis list \<Rightarrow> item list" where
  "merged_items w results =
     List.map_filter
       (\<lambda>k. running_average None (with_key w k (reported_items results)))
       (first_keys w (reported_items results))"

text \<open>The half sum \<^verbatim>\<open>(x + y) / 2\<close> of two numbers, as the code takes it.\<close>

definition half_sum :: "number \<Rightarrow> number \<Rightarrow> number" where
  "half_sum x y = js_divide (js_plus x y) 2"

text \<open>The sum of a list of numbers as the code takes it: from 0, left to right.\<close>

definition js_sum :: "number list \<Rightarrow> number" where
  "js_sum xs = foldl js_plus (Finite 0) xs"

text \<open>The rational a finite number stands for.\<close>

fun rat_of :: "number \<Rightarrow> rat" where
  "rat_of (Finite r) = r"
| "rat_of _ = 0"

text \<open>
  \<open>nearest_integer x y\<close>: \<open>y\<close> is the integer nearest to \<open>x\<close>, the upper one of
  two; an infinity and \<^verbatim>\<open>NaN\<close> are their own.
\<close>

fun nearest_integer :: "number \<Rightarrow> number \<Rightarrow> bool" where
  "nearest_integer (Finite r) (Finite s) \<longleftrightarrow>
     of_int \<lfloor>s\<rfloor> = s \<and> r - 1 / 2 < s \<and> s \<le> r + 1 / 2"
| "nearest_integer (Finite r) y \<longleftrightarrow> False"
| "nearest_integer x y \<longleftrightarrow> x = y"

text \<open>A measure in the usual range: a whole number from 0 to a million.\<close>

fun small_number :: "number \<Rightarrow> bool" where
  "small_number (Finite r) \<longleftrightarrow> 0 \<le> r \<and> r \<le> 1000000 \<and> of_int \<lfloor>r\<rfloor> = r"
| "small_number _ \<longleftrightarrow> False"

text \<open>A whole or half number from 0 to a million.\<close>

fun half_number :: "number \<Rightarrow> bool" where
  "half_number (Finite r) \<longleftrightarrow> 0 \<le> r \<and> r \<le> 1000000 \<and> of_int \<lfloor>2 * r\<rfloor> = 2 * r"
| "half_number _ \<longleftrightarrow> False"

definition small_item :: "item \<Rightarrow> bool" where
  "small_item it \<longleftrightarrow>
     small_number (calories it) \<and> small_number (carbs it) \<and>
     small_number (fats it) \<and> small_number (proteins it)"

text \<open>The requests fetched in a trace, in order.\<close>

fun fetched :: "event list \<Rightarrow> request list" where
  "fetched [] = []"
| "fetched (Fetch r # evs) = r # fetched evs"
| "fetched (_ # evs) = fetched evs"

text \<open>The object a response makes a provider call return, \<open>None\<close> for \<^verbatim>\<open>null\<close>.\<close>

fun payload_of :: "response \<Rightarrow> analysis option" where
  "payload_of (Content (Json a)) = Some a"
| "payload_of _ = None"

text \<open>The responses on which the \<^verbatim>\<open>try\<close> block of a provider call throws.\<close>

fun throws :: "response \<Rightarrow> bool" where
  "throws (Content (Json a)) = False"
| "throws (Content JsonNull) = False"
| "throws _ = True"

text \<open>A food item without its id.\<close>

definition item_of :: "FoodItem \<Rightarrow> item" where
  "item_of f =
     \<lparr> calories = calories f, carbs = carbs f, fats = fats f, proteins = proteins f,
       name = name f, quantity = quantity f, unit = unit f \<rparr>"

text \<open>Every value of the map stands under its own normalized key.\<close>

definition keyed :: "world \<Rightarrow> itemMap \<Rightarrow> bool" where
  "keyed w m \<longleftrightarrow> (\<forall>(k, v) \<in> set m. item_key w v = k)"

text \<open>The merged item list of the multi-source path (line 142).\<close>

definition finalItems :: "world \<Rightarrow> analysis list \<Rightarrow> item list" where
  "finalItems w results = Map_values (foldl (put_result w) [] results)"

text \<open>
  The calls a client can make on a service, and the state of the service after a call
  has settled, whether it returned or threw. Only \<^verbatim>\<open>initialize\<close> and
  \<^verbatim>\<open>disconnect\<close> assign the fields.
\<close>

datatype call =
    Initialize "string option"
  | AnalyzeFood string string
  | AnalyzeFoodFallback string string
  | Disconnect
  | GetWalletAddress

fun perform :: "world \<Rightarrow> service \<Rightarrow> call \<Rightarrow> service" where
  "perform w s (Initialize privateKey) = snd (initialize w privateKey s)"
| "perform w s Disconnect = snd (disconnect w s)"
| "perform w s (AnalyzeFood imageBase64 apiKey) = s"
| "perform w s (AnalyzeFoodFallback imageBase64 apiKey) = s"
| "perform w s GetWalletAddress = s"

section \<open>Example inputs\<close>

text \<open>The code units of an ASCII text.\<close>

definition str :: "string \<Rightarrow> js_string" where
  "str s = map of_char s"

text \<open>
  The two string built-ins on ASCII text, which is all that the examples hold: the
  letters A to Z in lower case, and the white space of ASCII stripped at both ends.
\<close>

definition ascii_toLowerCase :: "js_string \<Rightarrow> js_string" where
  "ascii_toLowerCase s = map (\<lambda>c. if 65 \<le> c \<and> c \<le> 90 then c + 32 else c) s"

definition ascii_space :: "nat \<Rightarrow> bool" where
  "ascii_space c \<longleftrightarrow> c = 32 \<or> (9 \<le> c \<and> c \<le> 13)"

definition ascii_trim :: "js_string \<Rightarrow> js_string" where
  "ascii_trim s = rev (dropWhile ascii_space (rev (dropWhile ascii_space s)))"

text \<open>
  The merge example: provider A reports Rice, provider B reports rice; their carbs are
  the decimals 0.1 and 4.6.
\<close>

definition rice_A :: item where
  "rice_A = \<lparr> calories = Finite 200, carbs = lit (1 / 10), fats = Finite 1,
              proteins = Finite 4,
              name = str ''Rice'', quantity = Finite 150, unit = str ''g'' \<rparr>"

definition rice_B :: item where
  "rice_B = \<lparr> calories = Finite 220, carbs = lit (23 / 5), fats = Finite 1,
              proteins = Finite 5,
              name = str ''rice'', quantity = Finite 170, unit = str ''grams'' \<rparr>"

definition rice_C :: item where
  "rice_C = \<lparr> calories = Finite 400, carbs = Finite 80, fats = Finite 1,
              proteins = Finite 8,
              name = str '' RICE '', quantity = Finite 300, unit = str ''gr'' \<rparr>"

definition beans :: item where
  "beans = \<lparr> calories = Finite 120, carbs = Finite 20, fats = Finite 1,
             proteins = Finite 8,
             name = str ''Beans'', quantity = Finite 100, unit = str ''g'' \<rparr>"

text \<open>Toast, reported three times with whole measures.\<close>

definition toast_A :: item where
  "toast_A = \<lparr> calories = Finite 80, carbs = Finite 15, fats = Finite 1,
               proteins = Finite 3,
               name = str ''Toast'', quantity = Finite 30, unit = str ''g'' \<rparr>"

definition toast_B :: item where
  "toast_B = \<lparr> calories = Finite 90, carbs = Finite 16, fats = Finite 2,
               proteins = Finite 3,
               name = str ''toast'', quantity = Finite 35, unit = str ''g'' \<rparr>"

definition toast_C :: item where
  "toast_C = \<lparr> calories = Finite 200, carbs = Finite 32, fats = Finite 4,
               proteins = Finite 7,
               name = str ''TOAST'', quantity = Finite 70, unit = str ''g'' \<rparr>"

text \<open>Three items whose carbs are the decimals 0.1, 0.2 and 0.4.\<close>

definition oats :: item where
  "oats = \<lparr> calories = Finite 150, carbs = lit (1 / 10), fats = Finite 3,
            proteins = Finite 5,
            name = str ''Oats'', quantity = Finite 40, unit = str ''g'' \<rparr>"

definition milk :: item where
  "milk = \<lparr> calories = Finite 60, carbs = lit (1 / 5), fats = Finite 3,
            proteins = Finite 3,
            name = str ''Milk'', quantity = Finite 100, unit = str ''ml'' \<rparr>"

definition honey :: item where
  "honey = \<lparr> calories = Finite 64, carbs = lit (2 / 5), fats = Finite 0,
             proteins = Finite 0,
             name = str ''Honey'', quantity = Finite 20, unit = str ''g'' \<rparr>"

text \<open>A provider's object that reports the given items and the calories it claims.\<close>

definition answer :: "item list \<Rightarrow> number \<Rightarrow> analysis" where
  "answer its c =
     \<lparr> items = Some its,
       totalNutrition =
         Some \<lparr> calories = c, carbs = Finite 0, fats = Finite 0, proteins = Finite 0 \<rparr>,
       providersUsed = None, confidence = None \<rparr>"

text \<open>
  A world in which the Lit network, the wallet library and the signer work, every
  answer takes the same time, and OpenRouter answers as given.
\<close>

definition world_of :: "(request \<Rightarrow> response) \<Rightarrow> world" where
  "world_of answers =
     \<lparr> toLowerCase = ascii_toLowerCase,
       trim = ascii_trim,
       openrouter = answers,
       latency = (\<lambda>req. 1),
       signEcdsa = (\<lambda>a. Inr ''signature''),
       now = 1700000000,
       random_id = (\<lambda>i. ''id''),
       new_Wallet = (\<lambda>k. Inr (Wallet k)),
       lit_connect = None,
       lit_disconnect = None,
       createSiweMessage = (\<lambda>wl. Inr ''authSig''),
       executeJs = None \<rparr>"

text \<open>Every provider answers with an empty item list.\<close>

definition empty_world :: world where
  "empty_world = world_of (\<lambda>req. Content (Json (answer [] (Finite 0))))"

text \<open>
  One provider of each action succeeds: the others fail in transport or answer with text
  that does not parse. The slowest answer is the one that fails in transport.
\<close>

definition partial_world :: world where
  "partial_world =
     (world_of (\<lambda>req.
        if model req = ''anthropic/claude-3.5-sonnet''
        then Content (Json (answer [rice_A, beans] (Finite 320)))
        else if model req = ''openai/gpt-4o'' then Content (SyntaxError ''Unexpected token'')
        else FetchRejects ''Failed to fetch''))
     \<lparr> latency := (\<lambda>req. if model req = ''openai/gpt-4o'' then 2
                        else if model req = ''anthropic/claude-3.5-sonnet'' then 3 else 9) \<rparr>"

text \<open>Every call of the action is refused; the fallback call is answered.\<close>

definition fallback_world :: world where
  "fallback_world =
     world_of (\<lambda>req.
       if title req = ''Cloe - AI Health Assistant (Fallback)''
       then Content (Json (answer [rice_A] (Finite 200)))
       else HttpError ''503'')"

text \<open>The lone provider that answers reports a provider count and a confidence of its own.\<close>

definition boasting_world :: world where
  "boasting_world =
     world_of (\<lambda>req.
       if model req = ''anthropic/claude-3.5-sonnet''
       then Content (Json ((answer [rice_A] (Finite 200))
              \<lparr> providersUsed := Some 3, confidence := Some ''high'' \<rparr>))
       else HttpError ''503'')"

text \<open>The lone provider that answers sends an object without items.\<close>

definition itemless_world :: world where
  "itemless_world =
     world_of (\<lambda>req.
       if model req = ''anthropic/claude-3.5-sonnet''
       then Content (Json ((answer [] (Finite 0)) \<lparr> items := None \<rparr>))
       else HttpError ''503'')"

definition ready_service :: service where
  "ready_service = \<lparr> wallet = Some RandomWallet, litNodeClient = Some True \<rparr>"

section \<open>Properties of the numbers\<close>

lemma quotient_of_abs:
  assumes "x \<noteq> 0" and "quotient_of \<bar>x\<bar> = (p, q)"
  shows "0 < p" and "0 < q" and "\<bar>x\<bar> = of_int p / of_int q"
proof -
  show q: "0 < q" using assms(2) by (rule quotient_of_denom_pos)
  show e: "\<bar>x\<bar> = of_int p / of_int q" using assms(2) by (rule quotient_of_div)
  have "0 < \<bar>x\<bar>" using assms(1) by simp
  with e q show "0 < p" by (simp add: zero_less_divide_iff)
qed

lemma bitlen_bounds_rat:
  assumes "0 < p"
  shows "(2::rat) powi (bitlen p - 1) \<le> of_int p" and "of_int p < (2::rat) powi (bitlen p)"
proof -
  have b: "1 \<le> bitlen p"
    using assms bitlen_eq_zero_iff [of p] bitlen_nonneg [of p] by linarith
  from bitlen_bounds [OF assms] have "2 ^ nat (bitlen p - 1) \<le> p" and "p < 2 ^ nat (bitlen p)"
    by simp_all
  then have "(of_int (2 ^ nat (bitlen p - 1)) :: rat) \<le> of_int p"
    and "(of_int p :: rat) < of_int (2 ^ nat (bitlen p))"
    by (simp_all only: of_int_le_iff of_int_less_iff)
  then show "(2::rat) powi (bitlen p - 1) \<le> of_int p" and "of_int p < (2::rat) powi (bitlen p)"
    using b by (simp_all add: power_int_def)
qed

lemma ilog2_bounds:
  assumes "x \<noteq> 0"
  shows "2 powi (ilog2 x) \<le> \<bar>x\<bar>" and "\<bar>x\<bar> < 2 powi (ilog2 x + 1)"
proof -
  obtain p q where pq: "quotient_of \<bar>x\<bar> = (p, q)" by (cases "quotient_of \<bar>x\<bar>")
  note f = quotient_of_abs [OF assms pq]
  note P = bitlen_bounds_rat [OF f(1)] and Q = bitlen_bounds_rat [OF f(2)]
  let ?d = "bitlen p - bitlen q"
  have qpos: "(0::rat) < of_int q" and ppos: "(0::rat) < of_int p" using f(1,2) by simp_all
  have pw: "(0::rat) < 2 powi n" for n by simp
  have lo: "(2::rat) powi (?d - 1) < \<bar>x\<bar>"
  proof -
    have "(2::rat) powi (?d - 1) = 2 powi (bitlen p - 1) / 2 powi (bitlen q)"
      by (simp add: power_int_diff)
    also have "\<dots> < of_int p / of_int q"
      using pw P(1) qpos Q(2) by (rule frac_less2)
    finally show ?thesis by (simp add: f(3))
  qed
  have hi: "\<bar>x\<bar> < (2::rat) powi (?d + 1)"
  proof -
    have "of_int p / of_int q < (2::rat) powi (bitlen p) / 2 powi (bitlen q - 1)"
      using ppos P(2) pw Q(1) by (intro frac_less) simp_all
    also have "\<dots> = 2 powi (?d + 1)"
      by (simp add: power_int_diff power_int_add)
    finally show ?thesis by (simp add: f(3))
  qed
  have i: "ilog2 x = (if 2 powi ?d \<le> \<bar>x\<bar> then ?d else ?d - 1)"
    by (simp add: ilog2_def pq)
  show "2 powi (ilog2 x) \<le> \<bar>x\<bar>"
    using lo by (simp add: i)
  show "\<bar>x\<bar> < 2 powi (ilog2 x + 1)"
    using hi by (auto simp: i)
qed

lemma ilog2_less:
  assumes "x \<noteq> 0" and "\<bar>x\<bar> < 2 powi n"
  shows "ilog2 x < n"
proof (rule ccontr)
  assume "\<not> ilog2 x < n"
  then have "(2::rat) powi n \<le> 2 powi (ilog2 x)"
    by (intro power_int_increasing) simp_all
  with ilog2_bounds(1) [OF assms(1)] assms(2) show False by simp
qed

lemma round_half_even_of_int: "round_half_even (of_int n) = n"
  by (simp add: round_half_even_def)

text \<open>A half integer below \<open>2 ^ 52\<close> in magnitude is a double.\<close>

lemma to_double_exact:
  assumes "x = of_int k / 2" and "\<bar>x\<bar> < 2 ^ 52"
  shows "to_double x = Finite x"
proof (cases "x = 0")
  case True
  then show ?thesis by (simp add: to_double_def)
next
  case False
  let ?e = "max (ilog2 x) (- 1022)"
  have "\<bar>x\<bar> < 2 powi 52" using assms(2) by simp
  with False have "ilog2 x < 52" by (rule ilog2_less)
  then have e: "?e \<le> 51" by simp
  define j where "j = nat (51 - ?e)"
  have "(2::rat) powi (?e - 52) = 1 / 2 powi (52 - ?e)"
    by (simp add: power_int_diff)
  also have "52 - ?e = int (Suc j)" using e by (simp add: j_def)
  finally have u: "(2::rat) powi (?e - 52) = 1 / 2 ^ Suc j"
    by (simp only: power_int_of_nat)
  have "x / (1 / 2 ^ Suc j) = of_int (k * 2 ^ j)"
    by (simp add: assms(1))
  then have r: "round_half_even (x / (1 / 2 ^ Suc j)) = k * 2 ^ j"
    by (simp only: round_half_even_of_int)
  have y: "of_int (k * 2 ^ j) * (1 / 2 ^ Suc j) = x"
    by (simp add: assms(1))
  have "\<bar>x\<bar> < 2 powi 1024"
    using assms(2) by (rule less_trans) simp
  with False have "ilog2 x < 1024" by (rule ilog2_less)
  then have n: "\<not> 1024 \<le> ilog2 x" by simp
  have "to_double x =
      (let ulp = 1 / 2 ^ Suc j; y = of_int (round_half_even (x / ulp)) * ulp
       in if 1024 \<le> ilog2 y then (if 0 < x then PosInfinity else NegInfinity) else Finite y)"
    using False by (simp only: to_double_def u if_False)
  also have "\<dots> = (if 1024 \<le> ilog2 x then (if 0 < x then PosInfinity else NegInfinity)
       else Finite x)"
    by (simp only: Let_def r y)
  also have "\<dots> = Finite x" using n by (simp only: if_False)
  finally show ?thesis .
qed

lemma to_double_of_int: "\<bar>of_int k :: rat\<bar> < 2 ^ 52 \<Longrightarrow> to_double (of_int k) = Finite (of_int k)"
  using to_double_exact [of "of_int k" "2 * k"] by simp

lemma to_double_numeral:
  "(numeral n :: rat) < 2 ^ 52 \<Longrightarrow> to_double (numeral n) = Finite (numeral n)"
  using to_double_of_int [of "numeral n"] by simp

lemma js_plus_commute: "js_plus x y = js_plus y x"
  by (cases x; cases y) (simp_all add: add.commute)

lemma nearest_integer_Math_round: "nearest_integer x (Math_round x)"
proof (cases x)
  case (Finite r)
  have "r - 1 / 2 < of_int \<lfloor>r + 1 / 2\<rfloor>" and "of_int \<lfloor>r + 1 / 2\<rfloor> \<le> r + 1 / 2"
    by linarith+
  with Finite show ?thesis by simp
qed simp_all

section \<open>Properties of the map\<close>

lemma map_of_Map_set: "map_of (Map_set m k v) = (map_of m)(k \<mapsto> v)"
  by (induction m k v rule: Map_set.induct) auto

lemma keys_Map_set: "fst ` set (Map_set m k v) = insert k (fst ` set m)"
  by (induction m k v rule: Map_set.induct) auto

lemma key_list_Map_set:
  "map fst (Map_set m k v) = (if k \<in> fst ` set m then map fst m else map fst m @ [k])"
  by (induction m k v rule: Map_set.induct) auto

lemma distinct_Map_set: "distinct (map fst m) \<Longrightarrow> distinct (map fst (Map_set m k v))"
  by (induction m k v rule: Map_set.induct) (auto simp: keys_Map_set)

lemma set_Map_set: "set (Map_set m k v) \<subseteq> insert (k, v) (set m)"
  by (induction m k v rule: Map_set.induct) auto

lemma put_item_Map_set:
  "put_item w m it =
     Map_set m (item_key w it)
       (case map_of m (item_key w it) of Some e \<Rightarrow> average_item e it | None \<Rightarrow> it)"
  by (simp add: put_item_def Map_get_def split: option.split)

lemma keys_put_item: "fst ` set (put_item w m it) = insert (item_key w it) (fst ` set m)"
  by (simp add: put_item_Map_set keys_Map_set)

lemma distinct_put_item: "distinct (map fst m) \<Longrightarrow> distinct (map fst (put_item w m it))"
  by (simp add: put_item_Map_set distinct_Map_set)

lemma map_of_put_item:
  "map_of (put_item w m it) k =
     (if item_key w it = k then running_average (map_of m k) [it] else map_of m k)"
  by (cases "map_of m k") (auto simp: put_item_Map_set map_of_Map_set)

lemma foldl_put_result:
  "foldl (put_result w) m results = foldl (put_item w) m (reported_items results)"
  by (induction results arbitrary: m)
     (auto simp: reported_items_def put_result_def split: option.split)

lemma keys_foldl_put_item:
  "fst ` set (foldl (put_item w) m its) = fst ` set m \<union> item_key w ` set its"
  by (induction its arbitrary: m) (auto simp: keys_put_item)

lemma distinct_foldl_put_item:
  "distinct (map fst m) \<Longrightarrow> distinct (map fst (foldl (put_item w) m its))"
  by (induction its arbitrary: m) (auto simp: distinct_put_item)

lemma map_of_foldl_put_item:
  "map_of (foldl (put_item w) m its) k = running_average (map_of m k) (with_key w k its)"
proof (induction its arbitrary: m)
  case Nil
  show ?case by (simp add: with_key_def)
next
  case (Cons it its)
  show ?case
    by (cases "map_of m k") (simp_all add: Cons.IH map_of_put_item with_key_def)
qed

lemma foldl_add_nutrition:
  "foldl add_nutrition acc its =
     \<lparr> calories = foldl js_plus (calories acc) (map calories its),
       carbs = foldl js_plus (carbs acc) (map carbs its),
       fats = foldl js_plus (fats acc) (map fats its),
       proteins = foldl js_plus (proteins acc) (map proteins its) \<rparr>"
  by (induction its arbitrary: acc) (simp_all add: add_nutrition_def)

section \<open>Properties of the merge\<close>

lemma item_key_average: "item_key w (average_item e it) = item_key w it"
  by (simp add: item_key_def average_item_def)

lemma keyed_Map_set: "keyed w m \<Longrightarrow> item_key w v = k \<Longrightarrow> keyed w (Map_set m k v)"
  unfolding keyed_def using set_Map_set [of m k v] by auto

lemma keyed_put_item: "keyed w m \<Longrightarrow> keyed w (put_item w m it)"
  by (auto simp: put_item_Map_set item_key_average intro!: keyed_Map_set split: option.split)

lemma keyed_foldl_put_item: "keyed w m \<Longrightarrow> keyed w (foldl (put_item w) m its)"
  by (induction its arbitrary: m) (auto simp: keyed_put_item)

lemma with_key_values:
  "distinct (map fst m) \<Longrightarrow> keyed w m \<Longrightarrow>
     with_key w k (map snd m) = (case map_of m k of Some v \<Rightarrow> [v] | None \<Rightarrow> [])"
proof (induction m)
  case Nil
  show ?case by (simp add: with_key_def)
next
  case (Cons p m)
  obtain k' v' where p: "p = (k', v')" by (cases p)
  from Cons.prems have d: "distinct (map fst m)" and km: "keyed w m"
    and kv: "item_key w v' = k'" and notin: "k' \<notin> fst ` set m"
    by (auto simp: keyed_def p)
  have IH: "with_key w k (map snd m) = (case map_of m k of Some v \<Rightarrow> [v] | None \<Rightarrow> [])"
    using Cons.IH d km by simp
  show ?case
  proof (cases "k' = k")
    case True
    with notin have "map_of m k = None" by (simp add: map_of_eq_None_iff)
    with IH True kv show ?thesis by (simp add: p with_key_def)
  next
    case False
    with IH kv show ?thesis by (simp add: p with_key_def)
  qed
qed

lemma aggregate_multi:
  "length results \<noteq> 1 \<Longrightarrow>
     aggregateResults w results =
       \<lparr> items = Some (finalItems w results),
         totalNutrition = Some (foldl add_nutrition zero_nutrition (finalItems w results)),
         providersUsed = Some (length results),
         confidence = Some (if length results \<ge> 2 then ''high'' else ''medium'') \<rparr>"
  by (cases results rule: list.exhaust; cases "tl results")
     (auto simp: aggregateResults_def finalItems_def Let_def split: list.split)

lemma with_key_finalItems:
  "with_key w k (finalItems w results) =
     (case running_average None (with_key w k (reported_items results)) of
        Some v \<Rightarrow> [v] | None \<Rightarrow> [])"
proof -
  let ?m = "foldl (put_item w) [] (reported_items results)"
  have "distinct (map fst ?m)" by (rule distinct_foldl_put_item) simp
  moreover have "keyed w ?m" by (rule keyed_foldl_put_item) (simp add: keyed_def)
  ultimately show ?thesis
    by (simp add: finalItems_def Map_values_def foldl_put_result with_key_values
        map_of_foldl_put_item)
qed

lemma running_average_Some: "\<exists>v. running_average (Some e) its = Some v"
  by (induction its arbitrary: e) auto

lemma running_average_append:
  "running_average acc (xs @ ys) = running_average (running_average acc xs) ys"
  by (induction acc xs rule: running_average.induct) simp_all

lemma running_average_name:
  "its \<noteq> [] \<Longrightarrow> running_average acc its = Some v \<Longrightarrow> name v = name (last its)"
proof (induction acc its rule: running_average.induct)
  case (1 acc)
  then show ?case by simp
next
  case (2 it its)
  then show ?case by (cases its) auto
next
  case (3 existing it its)
  then show ?case by (cases its) (auto simp: average_item_def)
qed

lemma running_average_unit_Some:
  "running_average (Some e) its = Some v \<Longrightarrow> unit v = unit e"
  by (induction its arbitrary: e) (auto simp: average_item_def)

lemma running_average_unit:
  "its \<noteq> [] \<Longrightarrow> running_average None its = Some v \<Longrightarrow> unit v = unit (hd its)"
  by (cases its) (auto simp: running_average_unit_Some)

lemma key_list_put_item:
  "map fst (put_item w m it) =
     (if item_key w it \<in> set (map fst m) then map fst m else map fst m @ [item_key w it])"
  by (simp add: put_item_Map_set key_list_Map_set)

lemma key_list_snoc:
  "rev (remdups (rev (ks @ [k]))) =
     (if k \<in> set ks then rev (remdups (rev ks)) else rev (remdups (rev ks)) @ [k])"
  by simp

lemma key_list_foldl_put_item:
  "map fst (foldl (put_item w) [] its) = first_keys w its"
proof (induction its rule: rev_induct)
  case Nil
  show ?case by (simp add: first_keys_def)
next
  case (snoc it its)
  have s: "set (first_keys w its) = item_key w ` set its"
    by (simp add: first_keys_def)
  show ?case
    using snoc.IH s
    by (simp add: key_list_put_item) (simp add: first_keys_def)
qed

lemma map_filter_agree:
  "(\<And>x. x \<in> set xs \<Longrightarrow> f x = g x) \<Longrightarrow> List.map_filter f xs = List.map_filter g xs"
proof (induction xs)
  case Nil
  show ?case by (simp add: map_filter_simps)
next
  case (Cons a xs)
  have "List.map_filter f xs = List.map_filter g xs"
    by (rule Cons.IH) (simp add: Cons.prems)
  moreover have "f a = g a" by (simp add: Cons.prems)
  ultimately show ?case by (simp add: map_filter_simps split: option.split)
qed

lemma values_by_key:
  "distinct (map fst m) \<Longrightarrow> List.map_filter (map_of m) (map fst m) = map snd m"
proof (induction m)
  case Nil
  show ?case by (simp add: map_filter_simps)
next
  case (Cons p m)
  obtain k v where p: "p = (k, v)" by (cases p)
  from Cons.prems have d: "distinct (map fst m)" and notin: "k \<notin> fst ` set m"
    by (auto simp: p)
  have "List.map_filter (map_of (p # m)) (map fst m) = List.map_filter (map_of m) (map fst m)"
  proof (rule map_filter_agree)
    fix x assume "x \<in> set (map fst m)"
    with notin have "x \<noteq> k" by auto
    then show "map_of (p # m) x = map_of m x" by (simp add: p)
  qed
  then have t: "List.map_filter (map_of (p # m)) (map fst m) = map snd m"
    using Cons.IH [OF d] by simp
  have "List.map_filter (map_of (p # m)) (map fst (p # m)) =
      v # List.map_filter (map_of (p # m)) (map fst m)"
    by (simp add: p map_filter_simps)
  also have "\<dots> = v # map snd m" by (simp only: t)
  also have "\<dots> = map snd (p # m)" by (simp add: p)
  finally show ?case .
qed

lemma finalItems_merged: "finalItems w results = merged_items w results"
proof -
  let ?m = "foldl (put_item w) [] (reported_items results)"
  have d: "distinct (map fst ?m)" by (rule distinct_foldl_put_item) simp
  have "finalItems w results = map snd ?m"
    by (simp add: finalItems_def Map_values_def foldl_put_result)
  also have "\<dots> = List.map_filter (map_of ?m) (map fst ?m)"
    using values_by_key [OF d] by simp
  also have "map_of ?m = (\<lambda>k. running_average None (with_key w k (reported_items results)))"
    by (rule ext) (simp add: map_of_foldl_put_item)
  finally show ?thesis
    by (simp add: merged_items_def key_list_foldl_put_item)
qed

section \<open>Sums and averages that are exact\<close>

lemma small_numberE:
  assumes "small_number x"
  obtains i where "x = Finite (of_int i)" and "0 \<le> i" and "i \<le> 1000000"
proof (cases x)
  case (Finite r)
  with assms have r: "0 \<le> r" "r \<le> 1000000" and "\<exists>n. r = of_int n" by simp_all
  then obtain i where i: "r = of_int i" by blast
  with r have "0 \<le> i" "i \<le> 1000000" by simp_all
  with i Finite that show ?thesis by blast
qed (use assms in simp_all)

lemma half_numberI:
  assumes "0 \<le> k" and "k \<le> 2000000"
  shows "half_number (Finite (of_int k / 2))"
proof -
  have "(0::rat) \<le> of_int k / 2" using assms(1) by simp
  moreover have "(of_int k :: rat) \<le> of_int 2000000" using assms(2) by (simp only: of_int_le_iff)
  then have "(of_int k :: rat) / 2 \<le> 1000000" by simp
  moreover have "\<exists>n. 2 * (of_int k / 2 :: rat) = of_int n" by (rule exI [of _ k]) simp
  ultimately show ?thesis by simp
qed

lemma half_numberE:
  assumes "half_number x"
  obtains k where "x = Finite (of_int k / 2)" and "0 \<le> k" and "k \<le> 2000000"
proof (cases x)
  case (Finite r)
  with assms have r: "0 \<le> r" "r \<le> 1000000" and "\<exists>n. 2 * r = of_int n" by simp_all
  then obtain k where k: "2 * r = of_int k" by blast
  then have rk: "r = of_int k / 2" by simp
  from r k have "(0::rat) \<le> of_int k" "(of_int k :: rat) \<le> 2000000" by linarith+
  then have "0 \<le> k" "k \<le> 2000000" by simp_all
  with rk Finite that show ?thesis by blast
qed (use assms in simp_all)

lemma small_half: "small_number x \<Longrightarrow> half_number x"
proof (erule small_numberE)
  fix i :: int assume x: "x = Finite (of_int i)" and i: "0 \<le> i" "i \<le> 1000000"
  have "half_number (Finite (of_int (2 * i) / 2))"
    using i by (intro half_numberI) simp_all
  with x show "half_number x" by simp
qed

lemma to_double_int:
  assumes "\<bar>k\<bar> < 2 ^ 52"
  shows "to_double (of_int k) = Finite (of_int k)"
proof (rule to_double_of_int)
  have "(of_int \<bar>k\<bar> :: rat) < of_int (2 ^ 52)" using assms by (simp only: of_int_less_iff)
  then show "\<bar>of_int k :: rat\<bar> < 2 ^ 52" by simp
qed

lemma to_double_half:
  assumes "\<bar>k\<bar> \<le> 2 ^ 52"
  shows "to_double (of_int k / 2) = Finite (of_int k / 2)"
proof (rule to_double_exact [OF refl])
  have "(of_int \<bar>k\<bar> :: rat) \<le> of_int (2 ^ 52)" using assms by (simp only: of_int_le_iff)
  then have "\<bar>of_int k :: rat\<bar> \<le> 2 ^ 52" by simp
  then show "\<bar>of_int k / 2 :: rat\<bar> < 2 ^ 52" by simp
qed

text \<open>The averages of two small whole numbers are computed without rounding.\<close>

lemma half_sum_small:
  assumes "0 \<le> i" "i \<le> 1000000" "0 \<le> j" "j \<le> 1000000"
  shows "half_sum (Finite (of_int i)) (Finite (of_int j)) = Finite (of_int (i + j) / 2)"
proof -
  have p: "(of_int i :: rat) + of_int j = of_int (i + j)" by simp
  have d1: "to_double (of_int (i + j)) = Finite (of_int (i + j))"
    using assms by (intro to_double_int) simp
  have d2: "to_double (of_int (i + j) / 2) = Finite (of_int (i + j) / 2)"
    using assms by (intro to_double_half) simp
  show ?thesis
    by (simp only: half_sum_def js_plus.simps p d1 js_divide.simps d2)
qed

lemma average_whole_small:
  assumes "small_number x" and "small_number y"
  shows "small_number (Math_round (half_sum x y))"
proof -
  from assms(1) obtain i where x: "x = Finite (of_int i)" and i: "0 \<le> i" "i \<le> 1000000"
    by (rule small_numberE)
  from assms(2) obtain j where y: "y = Finite (of_int j)" and j: "0 \<le> j" "j \<le> 1000000"
    by (rule small_numberE)
  define n where "n = \<lfloor>(of_int (i + j) :: rat) / 2 + 1 / 2\<rfloor>"
  have "(of_int (i + j) :: rat) / 2 + 1 / 2 = of_int (i + j + 1) / of_int 2"
    by (simp add: add_divide_distrib)
  then have "n = (i + j + 1) div 2"
    unfolding n_def by (simp only: floor_divide_of_int_eq)
  with i j have "0 \<le> n" "n \<le> 1000000" by simp_all
  then have "(0::rat) \<le> of_int n" "(of_int n :: rat) \<le> 1000000" by simp_all
  then have "small_number (Finite (of_int n))" by simp
  then show ?thesis
    by (simp only: x y half_sum_small [OF i j] Math_round.simps n_def)
qed

lemma average_tenth_small:
  assumes "small_number x" and "small_number y"
  shows "half_number (js_divide (Math_round (js_times (half_sum x y) 10)) 10)"
proof -
  from assms(1) obtain i where x: "x = Finite (of_int i)" and i: "0 \<le> i" "i \<le> 1000000"
    by (rule small_numberE)
  from assms(2) obtain j where y: "y = Finite (of_int j)" and j: "0 \<le> j" "j \<le> 1000000"
    by (rule small_numberE)
  define n where "n = 5 * (i + j)"
  have t: "(of_int (i + j) :: rat) / 2 * 10 = of_int n" by (simp add: n_def)
  have d1: "to_double (of_int n) = Finite (of_int n)"
    using i j by (intro to_double_int) (simp add: n_def)
  have f: "\<lfloor>(of_int n :: rat) + 1 / 2\<rfloor> = n" by linarith
  have e: "(of_int n :: rat) / 10 = of_int (i + j) / 2" by (simp add: n_def)
  have d2: "to_double (of_int (i + j) / 2) = Finite (of_int (i + j) / 2)"
    using i j by (intro to_double_half) simp
  have "js_divide (Math_round (js_times (half_sum x y) 10)) 10 = Finite (of_int (i + j) / 2)"
    by (simp only: x y half_sum_small [OF i j] js_times.simps t d1 Math_round.simps f
        js_divide.simps e d2)
  moreover have "half_number (Finite (of_int (i + j) / 2))"
    using i j by (intro half_numberI) simp_all
  ultimately show ?thesis by simp
qed

text \<open>The sum of at most a million half numbers is computed without rounding.\<close>

lemma foldl_js_plus_exact:
  assumes "0 \<le> k" and "k \<le> 2000000 * int n" and "n + length xs \<le> 1000000"
    and "\<forall>x \<in> set xs. half_number x"
  shows "foldl js_plus (Finite (of_int k / 2)) xs
           = Finite (of_int k / 2 + sum_list (map rat_of xs))"
  using assms
proof (induction xs arbitrary: k n)
  case Nil
  show ?case by simp
next
  case (Cons x xs)
  from Cons.prems(4) have "half_number x" by simp
  then obtain l where x: "x = Finite (of_int l / 2)" and l: "0 \<le> l" "l \<le> 2000000"
    by (rule half_numberE)
  have s: "(of_int k :: rat) / 2 + of_int l / 2 = of_int (k + l) / 2" by (simp add: add_divide_distrib)
  have b: "k + l \<le> 2000000 * int (Suc n)" using Cons.prems(2) l by simp
  have "int n \<le> 1000000" using Cons.prems(3) by simp
  then have "2000000 * int n \<le> 2000000 * 1000000" by simp
  with Cons.prems(2) l(2) have "k + l \<le> 2000000 * 1000001" by linarith
  then have "\<bar>k + l\<bar> \<le> 2 ^ 52" using Cons.prems(1) l(1) by simp
  then have d: "to_double (of_int (k + l) / 2) = Finite (of_int (k + l) / 2)"
    by (rule to_double_half)
  have "foldl js_plus (Finite (of_int k / 2)) (x # xs)
      = foldl js_plus (Finite (of_int (k + l) / 2)) xs"
    by (simp only: foldl.simps x js_plus.simps s d)
  also have "\<dots> = Finite (of_int (k + l) / 2 + sum_list (map rat_of xs))"
  proof (rule Cons.IH [of "k + l" "Suc n"])
    show "0 \<le> k + l" using Cons.prems(1) l(1) by simp
    show "k + l \<le> 2000000 * int (Suc n)" by (rule b)
    show "Suc n + length xs \<le> 1000000" using Cons.prems(3) by simp
    show "\<forall>x \<in> set xs. half_number x" using Cons.prems(4) by simp
  qed
  also have "of_int (k + l) / 2 + sum_list (map rat_of xs)
      = of_int k / 2 + sum_list (map rat_of (x # xs))"
    by (simp add: x add_divide_distrib)
  finally show ?case .
qed

lemma js_sum_exact:
  assumes "length xs \<le> 1000000" and "\<forall>x \<in> set xs. half_number x"
  shows "js_sum xs = Finite (sum_list (map rat_of xs))"
  using foldl_js_plus_exact [of 0 0 xs] assms by (simp add: js_sum_def)

lemma merged_measures_half:
  assumes "running_average None ys = Some m" and "length ys \<le> 2"
    and "\<forall>y \<in> set ys. small_item y"
  shows "half_number (calories m)" and "half_number (carbs m)"
    and "half_number (fats m)" and "half_number (proteins m)"
proof -
  consider a where "ys = [a]" | a b where "ys = [a, b]"
    using assms(1,2) by (cases ys; cases "tl ys"; cases "tl (tl ys)") auto
  then have "half_number (calories m) \<and> half_number (carbs m) \<and>
      half_number (fats m) \<and> half_number (proteins m)"
  proof cases
    case 1
    with assms(1,3) show ?thesis by (auto simp: small_item_def small_half)
  next
    case 2
    with assms(3) have a: "small_item a" and b: "small_item b" by simp_all
    from 2 assms(1) have m: "m = average_item a b" by simp
    have "half_number (calories m)"
      using average_whole_small [of "calories a" "calories b"] a b
      by (simp add: m average_item_def small_item_def small_half half_sum_def)
    moreover have "half_number (carbs m)"
      using average_tenth_small [of "carbs a" "carbs b"] a b
      by (simp add: m average_item_def small_item_def half_sum_def)
    moreover have "half_number (fats m)"
      using average_tenth_small [of "fats a" "fats b"] a b
      by (simp add: m average_item_def small_item_def half_sum_def)
    moreover have "half_number (proteins m)"
      using average_tenth_small [of "proteins a" "proteins b"] a b
      by (simp add: m average_item_def small_item_def half_sum_def)
    ultimately show ?thesis by simp
  qed
  then show "half_number (calories m)" and "half_number (carbs m)"
    and "half_number (fats m)" and "half_number (proteins m)" by simp_all
qed

lemma merged_items_member:
  assumes "m \<in> set (merged_items w results)"
  shows "\<exists>k. running_average None (with_key w k (reported_items results)) = Some m"
  using assms by (auto simp: merged_items_def List.map_filter_def)

lemma length_merged_items: "length (merged_items w results) \<le> length (reported_items results)"
proof -
  have "length (merged_items w results) \<le> length (first_keys w (reported_items results))"
    by (simp add: merged_items_def List.map_filter_def)
  also have "\<dots> \<le> length (reported_items results)"
    using length_remdups_leq [of "rev (map (item_key w) (reported_items results))"]
    by (simp add: first_keys_def)
  finally show ?thesis .
qed

lemma merged_sum_exact:
  assumes short: "\<forall>k. length (with_key w k (reported_items results)) \<le> 2"
    and small: "\<forall>it \<in> set (reported_items results). small_item it"
    and few: "length (reported_items results) \<le> 1000000"
  shows "js_sum (map calories (merged_items w results))
           = Finite (sum_list (map (\<lambda>it. rat_of (calories it)) (merged_items w results)))"
    and "js_sum (map carbs (merged_items w results))
           = Finite (sum_list (map (\<lambda>it. rat_of (carbs it)) (merged_items w results)))"
    and "js_sum (map fats (merged_items w results))
           = Finite (sum_list (map (\<lambda>it. rat_of (fats it)) (merged_items w results)))"
    and "js_sum (map proteins (merged_items w results))
           = Finite (sum_list (map (\<lambda>it. rat_of (proteins it)) (merged_items w results)))"
proof -
  have h: "half_number (calories m) \<and> half_number (carbs m) \<and>
      half_number (fats m) \<and> half_number (proteins m)"
    if "m \<in> set (merged_items w results)" for m
  proof -
    from that obtain k where k: "running_average None (with_key w k (reported_items results)) = Some m"
      using merged_items_member by blast
    have "\<forall>y \<in> set (with_key w k (reported_items results)). small_item y"
      using small by (simp add: with_key_def)
    with merged_measures_half [OF k] short show ?thesis by blast
  qed
  have l: "length (merged_items w results) \<le> 1000000"
    using length_merged_items [of w results] few by simp
  have e: "js_sum (map f (merged_items w results))
      = Finite (sum_list (map (\<lambda>it. rat_of (f it)) (merged_items w results)))"
    if "\<And>m. m \<in> set (merged_items w results) \<Longrightarrow> half_number (f m)" for f
    using js_sum_exact [of "map f (merged_items w results)"] l that by (simp add: comp_def)
  show "js_sum (map calories (merged_items w results))
           = Finite (sum_list (map (\<lambda>it. rat_of (calories it)) (merged_items w results)))"
    by (rule e) (simp add: h)
  show "js_sum (map carbs (merged_items w results))
           = Finite (sum_list (map (\<lambda>it. rat_of (carbs it)) (merged_items w results)))"
    by (rule e) (simp add: h)
  show "js_sum (map fats (merged_items w results))
           = Finite (sum_list (map (\<lambda>it. rat_of (fats it)) (merged_items w results)))"
    by (rule e) (simp add: h)
  show "js_sum (map proteins (merged_items w results))
           = Finite (sum_list (map (\<lambda>it. rat_of (proteins it)) (merged_items w results)))"
    by (rule e) (simp add: h)
qed

lemma sum_list_values:
  "distinct (map fst m) \<Longrightarrow>
     sum_list (map f (map snd m)) = (\<Sum>k \<in> fst ` set m. f (the (map_of m k)))"
proof (induction m)
  case Nil
  show ?case by simp
next
  case (Cons p m)
  obtain k v where p: "p = (k, v)" by (cases p)
  from Cons.prems have d: "distinct (map fst m)" and notin: "k \<notin> fst ` set m"
    by (auto simp: p)
  have "(\<Sum>k' \<in> fst ` set m. f (the (map_of (p # m) k')))
      = (\<Sum>k' \<in> fst ` set m. f (the (map_of m k')))"
    using notin by (intro sum.cong) (auto simp: p)
  with Cons.IH [OF d] notin show ?case by (simp add: p)
qed

lemma sum_finalItems:
  "sum_list (map f (finalItems w results)) =
     (\<Sum>k \<in> item_key w ` set (reported_items results).
        f (the (running_average None (with_key w k (reported_items results)))))"
proof -
  let ?m = "foldl (put_item w) [] (reported_items results)"
  have "distinct (map fst ?m)" by (rule distinct_foldl_put_item) simp
  from sum_list_values [OF this, of f] show ?thesis
    by (simp add: finalItems_def Map_values_def foldl_put_result keys_foldl_put_item
        map_of_foldl_put_item)
qed

lemma mset_reported_items:
  "mset results' = mset results \<Longrightarrow> mset (reported_items results') = mset (reported_items results)"
proof -
  assume a: "mset results' = mset results"
  let ?g = "\<lambda>r. mset (case items r of Some its \<Rightarrow> its | None \<Rightarrow> [])"
  have "mset (reported_items rs) = sum_mset (image_mset ?g (mset rs))" for rs
    by (induction rs) (simp_all add: reported_items_def)
  with a show ?thesis by simp
qed

lemma perm_short:
  assumes "mset ys = mset zs" and "length zs \<le> 2"
  shows "ys = zs \<or> (\<exists>a b. zs = [a, b] \<and> ys = [b, a])"
proof -
  have len: "length ys = length zs" using assms(1) by (rule mset_eq_length)
  show ?thesis
  proof (cases zs)
    case Nil
    with assms(1) show ?thesis by simp
  next
    case (Cons a zs')
    note zs = this
    show ?thesis
    proof (cases zs')
      case Nil
      with zs assms(1) show ?thesis by simp
    next
      case (Cons b zs'')
      with zs assms(2) have z: "zs = [a, b]" by simp
      with len obtain c d where y: "ys = [c, d]"
        by (cases ys; cases "tl ys") auto
      from assms(1) have "{#c, d#} = {#a, b#}" by (simp add: z y)
      then have "(c = a \<and> d = b) \<or> (c = b \<and> d = a)"
        by (auto simp: add_eq_conv_ex)
      with z y show ?thesis by auto
    qed
  qed
qed

lemma running_average_perm:
  assumes sym: "\<And>a b. f (average_item a b) = f (average_item b a)"
    and "mset ys = mset zs" and "length zs \<le> 2"
  shows "f (the (running_average None ys)) = f (the (running_average None zs))"
  using perm_short [OF assms(2,3)] by (auto simp: sym)

lemma sum_finalItems_perm:
  fixes f :: "item \<Rightarrow> rat"
  assumes sym: "\<And>a b. f (average_item a b) = f (average_item b a)"
    and perm: "mset results' = mset results"
    and short: "\<forall>k. length (with_key w k (reported_items results)) \<le> 2"
  shows "sum_list (map f (finalItems w results')) = sum_list (map f (finalItems w results))"
proof -
  have ms: "mset (reported_items results') = mset (reported_items results)"
    using perm by (rule mset_reported_items)
  then have s: "set (reported_items results') = set (reported_items results)"
    by (rule mset_eq_setD)
  have "f (the (running_average None (with_key w k (reported_items results')))) =
        f (the (running_average None (with_key w k (reported_items results))))" for k
  proof (rule running_average_perm [where f = f, OF sym])
    show "mset (with_key w k (reported_items results'))
        = mset (with_key w k (reported_items results))"
      using ms by (simp add: with_key_def)
    show "length (with_key w k (reported_items results)) \<le> 2" using short by simp
  qed
  then show ?thesis unfolding sum_finalItems s by simp
qed

lemma average_item_sym:
  "rat_of (calories (average_item a b)) = rat_of (calories (average_item b a))"
  "rat_of (carbs (average_item a b)) = rat_of (carbs (average_item b a))"
  "rat_of (fats (average_item a b)) = rat_of (fats (average_item b a))"
  "rat_of (proteins (average_item a b)) = rat_of (proteins (average_item b a))"
  by (simp_all add: average_item_def js_plus_commute)

lemma aggregate_totals:
  assumes "length results \<noteq> 1"
  shows "items (aggregateResults w results) = Some (merged_items w results)"
    and "totalNutrition (aggregateResults w results) =
      Some \<lparr> calories = js_sum (map calories (merged_items w results)),
             carbs = js_sum (map carbs (merged_items w results)),
             fats = js_sum (map fats (merged_items w results)),
             proteins = js_sum (map proteins (merged_items w results)) \<rparr>"
    and "providersUsed (aggregateResults w results) = Some (length results)"
    and "confidence (aggregateResults w results) = Some ''high'' \<longleftrightarrow> 2 \<le> length results"
  using assms
  by (simp_all add: aggregate_multi foldl_add_nutrition zero_nutrition_def js_sum_def
      finalItems_merged)

section \<open>Evaluating the examples\<close>

lemma floor_rat_numeral: "\<lfloor>numeral a / numeral b :: rat\<rfloor> = numeral a div numeral b"
  using floor_divide_of_int_eq [of "numeral a" "numeral b", where ?'a = rat] by simp

lemma to_double_half_int:
  assumes "of_int \<lfloor>2 * x\<rfloor> = 2 * x" and "\<bar>x\<bar> < 2 ^ 52"
  shows "to_double x = Finite x"
proof (rule to_double_exact [OF _ assms(2)])
  show "x = of_int \<lfloor>2 * x\<rfloor> / 2" by (simp add: assms(1))
qed

lemmas example_defs = rice_A_def rice_B_def rice_C_def beans_def toast_A_def toast_B_def
  toast_C_def oats_def milk_def honey_def answer_def

lemmas key_defs = item_key_def str_def ascii_toLowerCase_def ascii_trim_def ascii_space_def

lemmas world_defs = world_of_def empty_world_def partial_world_def fallback_world_def
  boasting_world_def itemless_world_def ready_service_def new_service_def

lemmas aggregate_defs = aggregateResults_def put_result_def put_item_def Map_get_def
  Map_values_def add_nutrition_def zero_nutrition_def average_item_def Let_def

lemmas run_defs = analyzeFood_def analyzeFood_try_def createAuthSig_def analyzeFoodImage_def
  getFoodAnalysisCode_def food_analysis_js_def foodAnalysisAction_def dispatch_def
  allSettled_def validResults_def map_filter_simps callOpenRouter_def callOpenRouter_settle_def
  fetch_and_parse_def action_request_def embedded_aiProviders_def aiProviders_def with_ids_def
  Let_def

lemmas number_simps = to_double_half_int floor_rat_numeral

lemma rice_carbs:
  "js_divide (Math_round (js_times (js_divide (js_plus (lit (1 / 10)) (lit (23 / 5))) 2) 10)) 10
     = lit (23 / 10)"
  by code_simp

lemma rice_beans_carbs:
  "js_plus (js_plus (Finite 0) (lit (23 / 10))) (Finite 20) = lit (223 / 10)"
  by code_simp

lemma tenths_sum:
  "js_plus (js_plus (js_plus (Finite 0) (lit (1 / 10))) (lit (1 / 5))) (lit (2 / 5))
     = Finite (6305039478318695 / 9007199254740992)"
  by code_simp

lemma tenths_sum_rev:
  "js_plus (js_plus (js_plus (Finite 0) (lit (2 / 5))) (lit (1 / 10))) (lit (1 / 5))
     = Finite (3152519739159347 / 4503599627370496)"
  by code_simp

lemma tenths_exact:
  "rat_of (lit (1 / 10)) + rat_of (lit (1 / 5)) + rat_of (lit (2 / 5))
     = 25220157913274779 / 36028797018963968"
  by code_simp

section \<open>Totals and confidence of a multi-source aggregation\<close>

text \<open>
  Claim C7. On the multi-source path (the number of results is not one) the result
  holds the merged item list, and its totals are recomputed from that list: each
  measure is the sum of the measure over the merged items as the code takes it,
  starting from 0 and adding the items in the order of the list, every addition rounded
  to a double. Nothing is averaged. The provider count is the number of results and
  the confidence is high exactly when two or more results came in.
\<close>

theorem totals_are_double_sums:
  assumes "length results \<noteq> 1"
  shows "items (aggregateResults w results) = Some (merged_items w results) \<and>
         totalNutrition (aggregateResults w results) =
           Some \<lparr> calories = js_sum (map calories (merged_items w results)),
                  carbs = js_sum (map carbs (merged_items w results)),
                  fats = js_sum (map fats (merged_items w results)),
                  proteins = js_sum (map proteins (merged_items w results)) \<rparr> \<and>
         providersUsed (aggregateResults w results) = Some (length results) \<and>
         (confidence (aggregateResults w results) = Some ''high'' \<longleftrightarrow> 2 \<le> length results)"
  using aggregate_totals [OF assms] by blast

text \<open>The merged list of the Rice and rice example, with beans reported once.\<close>

lemma merged_rice_beans:
  "merged_items empty_world [answer [rice_A, beans] (Finite 320), answer [rice_B] (Finite 220)]
     = [\<lparr> calories = Finite 210, carbs = lit (23 / 10), fats = Finite 1,
          proteins = Finite (9 / 2), name = str ''rice'', quantity = Finite 160,
          unit = str ''g'' \<rparr>,
        beans]"
  by (simp add: merged_items_def reported_items_def first_keys_def with_key_def
      map_filter_simps average_item_def example_defs key_defs world_defs number_simps rice_carbs)

text \<open>
  The claim at that example: the merged items are rice and beans, the totals are
  330 calories, 22.3 carbs, 2 fats and 12.5 proteins, from two providers, confidence
  high.
\<close>

theorem totals_are_double_sums_witness:
  "length [answer [rice_A, beans] (Finite 320), answer [rice_B] (Finite 220)] \<noteq> 1 \<and>
   items (aggregateResults empty_world
       [answer [rice_A, beans] (Finite 320), answer [rice_B] (Finite 220)])
     = Some [\<lparr> calories = Finite 210, carbs = lit (23 / 10), fats = Finite 1,
               proteins = Finite (9 / 2), name = str ''rice'', quantity = Finite 160,
               unit = str ''g'' \<rparr>,
             beans] \<and>
   totalNutrition (aggregateResults empty_world
       [answer [rice_A, beans] (Finite 320), answer [rice_B] (Finite 220)])
     = Some \<lparr> calories = Finite 330, carbs = lit (223 / 10), fats = Finite 2,
              proteins = Finite (25 / 2) \<rparr> \<and>
   providersUsed (aggregateResults empty_world
       [answer [rice_A, beans] (Finite 320), answer [rice_B] (Finite 220)]) = Some 2 \<and>
   confidence (aggregateResults empty_world
       [answer [rice_A, beans] (Finite 320), answer [rice_B] (Finite 220)]) = Some ''high''"
proof -
  have h: "length [answer [rice_A, beans] (Finite 320), answer [rice_B] (Finite 220)] \<noteq> 1"
    by simp
  have s: "js_sum [Finite 210, Finite 120] = Finite 330"
    "js_sum [lit (23 / 10), Finite 20] = lit (223 / 10)"
    "js_sum [Finite 1, Finite 1] = Finite 2"
    "js_sum [Finite (9 / 2), Finite 8] = Finite (25 / 2)"
    by (simp_all add: js_sum_def number_simps rice_beans_carbs)
  have b: "calories beans = Finite 120" "carbs beans = Finite 20" "fats beans = Finite 1"
    "proteins beans = Finite 8"
    by (simp_all add: beans_def)
  note t = totals_are_double_sums [OF h, of empty_world, unfolded merged_rice_beans]
  from t h show ?thesis by (simp add: s b)
qed

text \<open>
  The sum the code takes is not always the exact sum of the merged measures. Items
  with carbs 0.1, 0.2 and 0.4 under three keys are merged unchanged; their carbs total
  is the double 0.7000000000000001, which differs from the sum of the three doubles.
\<close>

theorem totals_inexact_counterexample:
  "items (aggregateResults empty_world [answer [oats, milk] (Finite 210), answer [honey] (Finite 64)])
     = Some [oats, milk, honey] \<and>
   totalNutrition (aggregateResults empty_world
       [answer [oats, milk] (Finite 210), answer [honey] (Finite 64)])
     = Some \<lparr> calories = Finite 274, carbs = Finite (6305039478318695 / 9007199254740992),
              fats = Finite 6, proteins = Finite 8 \<rparr> \<and>
   rat_of (carbs oats) + rat_of (carbs milk) + rat_of (carbs honey)
     = 25220157913274779 / 36028797018963968 \<and>
   (25220157913274779 / 36028797018963968 :: rat) \<noteq> 6305039478318695 / 9007199254740992"
  by (simp add: aggregate_defs example_defs key_defs world_defs number_simps tenths_sum
      tenths_exact)

section \<open>The merge of two items with one key\<close>

lemma tenth_of_nearest:
  "\<exists>n. nearest_integer t n \<and> js_divide (Math_round t) 10 = js_divide n 10"
  by (rule exI [of _ "Math_round t"]) (simp add: nearest_integer_Math_round)

text \<open>
  Claim C3. On the multi-source path, let an item \<open>b\<close> be the last one reported under
  a normalized key and let \<open>e\<close> be what the map holds under that key when \<open>b\<close>
  arrives: the merge of the items \<open>xs\<close> reported under the key before. Then the merged
  list has one item under the key. Its quantity and calories are \<^verbatim>\<open>Math.round\<close> of
  the half sum (e + b) / 2, which is an integer nearest to the half sum. Its carbs, fats
  and proteins are \<^verbatim>\<open>Math.round\<close> of ten times the half sum, an integer nearest to
  that product, divided by 10. Its name is that of \<open>b\<close> and its unit that of the
  first item reported under the key. Sums, products and quotients are those of double
  arithmetic.
\<close>

theorem merge_pair_average:
  assumes "length results \<noteq> 1"
    and "with_key w k (reported_items results) = xs @ [b]"
    and "running_average None xs = Some e"
  shows "\<exists>m. items (aggregateResults w results) = Some (merged_items w results) \<and>
           with_key w k (merged_items w results) = [m] \<and>
           quantity m = Math_round (half_sum (quantity e) (quantity b)) \<and>
           calories m = Math_round (half_sum (calories e) (calories b)) \<and>
           carbs m = js_divide (Math_round (js_times (half_sum (carbs e) (carbs b)) 10)) 10 \<and>
           fats m = js_divide (Math_round (js_times (half_sum (fats e) (fats b)) 10)) 10 \<and>
           proteins m =
             js_divide (Math_round (js_times (half_sum (proteins e) (proteins b)) 10)) 10 \<and>
           name m = name b \<and>
           unit m = unit (hd xs) \<and>
           nearest_integer (half_sum (quantity e) (quantity b)) (quantity m) \<and>
           nearest_integer (half_sum (calories e) (calories b)) (calories m) \<and>
           (\<exists>n. nearest_integer (js_times (half_sum (carbs e) (carbs b)) 10) n \<and>
                carbs m = js_divide n 10) \<and>
           (\<exists>n. nearest_integer (js_times (half_sum (fats e) (fats b)) 10) n \<and>
                fats m = js_divide n 10) \<and>
           (\<exists>n. nearest_integer (js_times (half_sum (proteins e) (proteins b)) 10) n \<and>
                proteins m = js_divide n 10)"
proof -
  let ?m = "average_item e b"
  have ne: "xs \<noteq> []" using assms(3) by auto
  have its: "items (aggregateResults w results) = Some (merged_items w results)"
    using assms(1) by (rule aggregate_totals(1))
  have "running_average None (xs @ [b]) = Some ?m"
    by (simp add: running_average_append assms(3))
  then have m: "with_key w k (merged_items w results) = [?m]"
    using with_key_finalItems [of w k results] by (simp add: finalItems_merged assms(2))
  have q: "quantity ?m = Math_round (half_sum (quantity e) (quantity b))"
    and c: "calories ?m = Math_round (half_sum (calories e) (calories b))"
    and cb: "carbs ?m = js_divide (Math_round (js_times (half_sum (carbs e) (carbs b)) 10)) 10"
    and f: "fats ?m = js_divide (Math_round (js_times (half_sum (fats e) (fats b)) 10)) 10"
    and p: "proteins ?m =
      js_divide (Math_round (js_times (half_sum (proteins e) (proteins b)) 10)) 10"
    and n: "name ?m = name b"
    by (simp_all only: average_item_def half_sum_def item.simps NutritionInfo.simps)
  have "unit ?m = unit e" by (simp only: average_item_def item.simps)
  also have "unit e = unit (hd xs)"
    using running_average_unit [OF ne assms(3)] .
  finally have u: "unit ?m = unit (hd xs)" .
  have nq: "nearest_integer (half_sum (quantity e) (quantity b)) (quantity ?m)"
    and nc: "nearest_integer (half_sum (calories e) (calories b)) (calories ?m)"
    unfolding q c by (rule nearest_integer_Math_round)+
  have t: "\<exists>n. nearest_integer (js_times (half_sum (carbs e) (carbs b)) 10) n \<and>
                carbs ?m = js_divide n 10"
    "\<exists>n. nearest_integer (js_times (half_sum (fats e) (fats b)) 10) n \<and>
                fats ?m = js_divide n 10"
    "\<exists>n. nearest_integer (js_times (half_sum (proteins e) (proteins b)) 10) n \<and>
                proteins ?m = js_divide n 10"
    unfolding cb f p by (rule tenth_of_nearest)+
  show ?thesis
    by (intro exI [of _ ?m] conjI) (fact its m q c cb f p n u nq nc t)+
qed

text \<open>
  The claim at the example of the specification: Rice, 150 g, 200 calories, and rice,
  170 grams, 220 calories, give quantity 160 and calories 210 with the unit g; carbs
  0.1 and 4.6 give 2.3.
\<close>

theorem merge_pair_average_witness:
  "length [answer [rice_A, beans] (Finite 320), answer [rice_B] (Finite 220)] \<noteq> 1 \<and>
   with_key empty_world (str ''rice'')
       (reported_items [answer [rice_A, beans] (Finite 320), answer [rice_B] (Finite 220)])
     = [rice_A] @ [rice_B] \<and>
   running_average None [rice_A] = Some rice_A \<and>
   with_key empty_world (str ''rice'')
       (merged_items empty_world [answer [rice_A, beans] (Finite 320), answer [rice_B] (Finite 220)])
     = [\<lparr> calories = Finite 210, carbs = lit (23 / 10), fats = Finite 1,
          proteins = Finite (9 / 2), name = str ''rice'', quantity = Finite 160,
          unit = str ''g'' \<rparr>]"
proof -
  let ?rs = "[answer [rice_A, beans] (Finite 320), answer [rice_B] (Finite 220)]"
  have h1: "length ?rs \<noteq> 1" by simp
  have r: "reported_items ?rs = [rice_A, beans, rice_B]"
    by (simp add: reported_items_def answer_def)
  have h2: "with_key empty_world (str ''rice'') (reported_items ?rs) = [rice_A] @ [rice_B]"
    unfolding r by (simp add: with_key_def rice_A_def rice_B_def beans_def key_defs world_defs)
  have h3: "running_average None [rice_A] = Some rice_A" by simp
  from merge_pair_average [OF h1 h2 h3] obtain m where
    m: "with_key empty_world (str ''rice'') (merged_items empty_world ?rs) = [m]"
    and "quantity m = Math_round (half_sum (quantity rice_A) (quantity rice_B))"
    and "calories m = Math_round (half_sum (calories rice_A) (calories rice_B))"
    and "carbs m =
      js_divide (Math_round (js_times (half_sum (carbs rice_A) (carbs rice_B)) 10)) 10"
    and "fats m = js_divide (Math_round (js_times (half_sum (fats rice_A) (fats rice_B)) 10)) 10"
    and "proteins m =
      js_divide (Math_round (js_times (half_sum (proteins rice_A) (proteins rice_B)) 10)) 10"
    and "name m = name rice_B" and "unit m = unit (hd [rice_A])"
    by blast
  then have "quantity m = Finite 160" "calories m = Finite 210" "carbs m = lit (23 / 10)"
    "fats m = Finite 1" "proteins m = Finite (9 / 2)" "name m = str ''rice''"
    "unit m = str ''g''"
    by (simp_all add: half_sum_def rice_A_def rice_B_def number_simps rice_carbs)
  then have "m = \<lparr> calories = Finite 210, carbs = lit (23 / 10), fats = Finite 1,
          proteins = Finite (9 / 2), name = str ''rice'', quantity = Finite 160,
          unit = str ''g'' \<rparr>"
    by (cases m) simp
  with m h1 h2 h3 show ?thesis by simp
qed

section \<open>Name and unit of a merged item\<close>

text \<open>
  Claim C9. On the multi-source path, when two or more reported items share a
  normalized key, the merged list has one item under that key; its name is the spelling
  of the last item reported under the key and its unit is that of the first.
\<close>

theorem merged_name_last_unit_first:
  assumes "length results \<noteq> 1"
    and "2 \<le> length (with_key w k (reported_items results))"
  shows "\<exists>its m. items (aggregateResults w results) = Some its \<and> with_key w k its = [m] \<and>
           name m = name (last (with_key w k (reported_items results))) \<and>
           unit m = unit (hd (with_key w k (reported_items results)))"
proof -
  let ?xs = "with_key w k (reported_items results)"
  from assms(2) have ne: "?xs \<noteq> []" by auto
  then obtain x xs where xs: "?xs = x # xs" by (cases ?xs) auto
  obtain m where m: "running_average None ?xs = Some m"
    using running_average_Some [of x xs] by (auto simp: xs)
  have "items (aggregateResults w results) = Some (finalItems w results)"
    using assms(1) by (simp add: aggregate_multi)
  moreover have "with_key w k (finalItems w results) = [m]"
    by (simp add: with_key_finalItems m)
  moreover have "name m = name (last ?xs)" using running_average_name [OF ne m] .
  moreover have "unit m = unit (hd ?xs)" using running_average_unit [OF ne m] .
  ultimately show ?thesis by blast
qed

text \<open>The claim at three providers that report Rice, rice and RICE with three units.\<close>

theorem merged_name_last_unit_first_witness:
  "length [answer [rice_A] (Finite 200), answer [rice_B, beans] (Finite 340),
           answer [rice_C] (Finite 400)] \<noteq> 1 \<and>
   2 \<le> length (with_key empty_world (str ''rice'')
          (reported_items [answer [rice_A] (Finite 200), answer [rice_B, beans] (Finite 340),
             answer [rice_C] (Finite 400)])) \<and>
   (\<exists>its m. items (aggregateResults empty_world
                 [answer [rice_A] (Finite 200), answer [rice_B, beans] (Finite 340),
                  answer [rice_C] (Finite 400)]) = Some its \<and>
      with_key empty_world (str ''rice'') its = [m] \<and>
      name m = str '' RICE '' \<and> unit m = str ''g'')"
proof -
  let ?rs = "[answer [rice_A] (Finite 200), answer [rice_B, beans] (Finite 340),
           answer [rice_C] (Finite 400)]"
  have h1: "length ?rs \<noteq> 1" by simp
  have r: "reported_items ?rs = [rice_A, rice_B, beans, rice_C]"
    by (simp add: reported_items_def answer_def)
  have k: "with_key empty_world (str ''rice'') (reported_items ?rs) = [rice_A, rice_B, rice_C]"
    unfolding r
    by (simp add: with_key_def rice_A_def rice_B_def rice_C_def beans_def key_defs world_defs)
  have h2: "2 \<le> length (with_key empty_world (str ''rice'') (reported_items ?rs))"
    by (simp add: k)
  from merged_name_last_unit_first [OF h1 h2] show ?thesis
    using h1 h2 by (simp add: k) (simp add: rice_A_def rice_C_def)
qed

section \<open>Totals and the order of the provider lists\<close>

text \<open>
  Claim C1. When no normalized key is reported more than twice in all, every reported
  measure (calories, carbs, fats, proteins) is a whole number from 0 to 1000000, and at
  most 1000000 items are reported, the totals of the aggregated result are the same for
  every order of the provider results.
\<close>

theorem totals_permutation:
  assumes "mset results' = mset results"
    and "\<forall>k. length (with_key w k (reported_items results)) \<le> 2"
    and "\<forall>it \<in> set (reported_items results). small_item it"
    and "length (reported_items results) \<le> 1000000"
  shows "totalNutrition (aggregateResults w results')
           = totalNutrition (aggregateResults w results)"
proof (cases "length results = 1")
  case True
  then obtain r where r: "results = [r]" by (cases results) auto
  with assms(1) have "results' = [r]" by simp
  with r show ?thesis by simp
next
  case False
  moreover from assms(1) have "length results' = length results" by (rule mset_eq_length)
  ultimately have l: "length results \<noteq> 1" "length results' \<noteq> 1" by simp_all
  have ms: "mset (reported_items results') = mset (reported_items results)"
    using assms(1) by (rule mset_reported_items)
  have short': "\<forall>k. length (with_key w k (reported_items results')) \<le> 2"
  proof
    fix k
    have "mset (with_key w k (reported_items results'))
        = mset (with_key w k (reported_items results))"
      using ms by (simp add: with_key_def)
    then have "length (with_key w k (reported_items results'))
        = length (with_key w k (reported_items results))"
      by (rule mset_eq_length)
    with assms(2) show "length (with_key w k (reported_items results')) \<le> 2" by simp
  qed
  have small': "\<forall>it \<in> set (reported_items results'). small_item it"
    using assms(3) mset_eq_setD [OF ms] by simp
  have few': "length (reported_items results') \<le> 1000000"
    using assms(4) mset_eq_length [OF ms] by simp
  note e = merged_sum_exact [OF assms(2,3,4)] and e' = merged_sum_exact [OF short' small' few']
  note p = sum_finalItems_perm [where w = w, OF _ assms(1,2), unfolded finalItems_merged]
  show ?thesis
    by (simp only: aggregate_totals(2) [OF l(1)] aggregate_totals(2) [OF l(2)] e e'
        p [where f = "\<lambda>it. rat_of (calories it)", OF average_item_sym(1)]
        p [where f = "\<lambda>it. rat_of (carbs it)", OF average_item_sym(2)]
        p [where f = "\<lambda>it. rat_of (fats it)", OF average_item_sym(3)]
        p [where f = "\<lambda>it. rat_of (proteins it)", OF average_item_sym(4)])
qed

text \<open>
  With three items under one key the totals depend on the order of the results: toast
  with 80, 90 and 200 calories gives 143 in one order and 113 in the reverse. With
  measures that are not whole numbers they depend on it through the rounding of the
  sums: carbs 0.1, 0.2 and 0.4 under three keys total 0.7000000000000001 in one order
  and 0.7 in the other.
\<close>

theorem totals_order_counterexample:
  "mset [answer [toast_C] (Finite 200), answer [toast_B] (Finite 90), answer [toast_A] (Finite 80)]
     = mset [answer [toast_A] (Finite 80), answer [toast_B] (Finite 90), answer [toast_C] (Finite 200)] \<and>
   map_option calories (totalNutrition (aggregateResults empty_world
       [answer [toast_A] (Finite 80), answer [toast_B] (Finite 90), answer [toast_C] (Finite 200)]))
     = Some (Finite 143) \<and>
   map_option calories (totalNutrition (aggregateResults empty_world
       [answer [toast_C] (Finite 200), answer [toast_B] (Finite 90), answer [toast_A] (Finite 80)]))
     = Some (Finite 113) \<and>
   mset [answer [honey] (Finite 64), answer [oats, milk] (Finite 210)]
     = mset [answer [oats, milk] (Finite 210), answer [honey] (Finite 64)] \<and>
   map_option carbs (totalNutrition (aggregateResults empty_world
       [answer [oats, milk] (Finite 210), answer [honey] (Finite 64)]))
     = Some (Finite (6305039478318695 / 9007199254740992)) \<and>
   map_option carbs (totalNutrition (aggregateResults empty_world
       [answer [honey] (Finite 64), answer [oats, milk] (Finite 210)]))
     = Some (Finite (3152519739159347 / 4503599627370496))"
  by (simp add: aggregate_defs example_defs key_defs world_defs number_simps tenths_sum
      tenths_sum_rev)

text \<open>
  The amended claim at two providers that both report toast, one of them beans too:
  both orders give 205 calories, 35.5 carbs, 2.5 fats and 11 proteins.
\<close>

theorem totals_permutation_witness:
  "mset [answer [toast_B] (Finite 90), answer [toast_A, beans] (Finite 200)]
     = mset [answer [toast_A, beans] (Finite 200), answer [toast_B] (Finite 90)] \<and>
   totalNutrition (aggregateResults empty_world
       [answer [toast_B] (Finite 90), answer [toast_A, beans] (Finite 200)])
     = totalNutrition (aggregateResults empty_world
       [answer [toast_A, beans] (Finite 200), answer [toast_B] (Finite 90)]) \<and>
   totalNutrition (aggregateResults empty_world
       [answer [toast_A, beans] (Finite 200), answer [toast_B] (Finite 90)])
     = Some \<lparr> calories = Finite 205, carbs = Finite (71 / 2), fats = Finite (5 / 2),
              proteins = Finite 11 \<rparr>"
proof -
  let ?rs = "[answer [toast_A, beans] (Finite 200), answer [toast_B] (Finite 90)]"
  have r: "reported_items ?rs = [toast_A, beans, toast_B]"
    by (simp add: reported_items_def answer_def)
  have h1: "mset [answer [toast_B] (Finite 90), answer [toast_A, beans] (Finite 200)] = mset ?rs"
    by simp
  have h2: "\<forall>k. length (with_key empty_world k (reported_items ?rs)) \<le> 2"
    unfolding r by (simp add: with_key_def toast_A_def toast_B_def beans_def key_defs world_defs)
  have h3: "\<forall>it \<in> set (reported_items ?rs). small_item it"
    unfolding r by (simp add: small_item_def toast_A_def toast_B_def beans_def)
  have h4: "length (reported_items ?rs) \<le> 1000000" unfolding r by simp
  have v: "totalNutrition (aggregateResults empty_world ?rs)
     = Some \<lparr> calories = Finite 205, carbs = Finite (71 / 2), fats = Finite (5 / 2),
              proteins = Finite 11 \<rparr>"
    by (simp add: aggregate_defs example_defs key_defs world_defs number_simps)
  from totals_permutation [OF h1 h2 h3 h4] h1 v show ?thesis by simp
qed

section \<open>The provider invoker and the fan-out\<close>

lemma fetched_append: "fetched (xs @ ys) = fetched xs @ fetched ys"
  by (induction xs rule: fetched.induct) auto

lemma fetched_Fetch: "fetched (map Fetch rs) = rs"
  by (induction rs) simp_all

lemma fetched_Console: "fetched (map (\<lambda>m. Console (f m)) ms) = []"
  by (induction ms) simp_all

lemma callOpenRouter_settle_value:
  "fst (callOpenRouter_settle w m req) = Inr (payload_of (openrouter w req))"
  by (cases "openrouter w req" rule: payload_of.cases)
     (simp_all add: callOpenRouter_settle_def fetch_and_parse_def)

lemma callOpenRouter_settle_events:
  "snd (callOpenRouter_settle w m req) =
     (if throws (openrouter w req) then [Console (''Error with '' @ m @ '':'')] else [])"
  by (cases "openrouter w req" rule: throws.cases)
     (simp_all add: callOpenRouter_settle_def fetch_and_parse_def)

lemma callOpenRouter_value:
  "fst (callOpenRouter w img m key) = Inr (payload_of (openrouter w (action_request m key img)))"
  using callOpenRouter_settle_value [of w m "action_request m key img"]
  by (cases "callOpenRouter_settle w m (action_request m key img)")
     (simp add: callOpenRouter_def Let_def)

lemma callOpenRouter_fetched:
  "fetched (snd (callOpenRouter w img m key)) = [action_request m key img]"
  using callOpenRouter_settle_events [of w m "action_request m key img"]
  by (cases "callOpenRouter_settle w m (action_request m key img)")
     (auto simp: callOpenRouter_def Let_def split: if_splits)

lemma dispatch_settled:
  "fst (dispatch w img key models) =
     map (\<lambda>m. Fulfilled (payload_of (openrouter w (action_request m key img)))) models"
  by (simp add: dispatch_def allSettled_def callOpenRouter_settle_value Let_def comp_def)

lemma concat_settle_events:
  "concat (map (\<lambda>m. snd (callOpenRouter_settle w m (action_request m key img))) ms) =
     map (\<lambda>m. Console (''Error with '' @ m @ '':''))
       (filter (\<lambda>m. throws (openrouter w (action_request m key img))) ms)"
  by (induction ms) (simp_all add: callOpenRouter_settle_events)

lemma dispatch_events:
  "snd (dispatch w img key models) =
     map (\<lambda>m. Fetch (action_request m key img)) models @
     map (\<lambda>m. Console (''Error with '' @ m @ '':''))
       (filter (\<lambda>m. throws (openrouter w (action_request m key img)))
          (sort_key (\<lambda>m. latency w (action_request m key img)) models))"
  by (simp add: dispatch_def Let_def concat_settle_events)

lemma dispatch_fetched:
  "fetched (snd (dispatch w img key models)) = map (\<lambda>m. action_request m key img) models"
proof -
  have "map (\<lambda>m. Fetch (action_request m key img)) models
      = map Fetch (map (\<lambda>m. action_request m key img) models)" by simp
  then show ?thesis
    by (simp only: dispatch_events fetched_append fetched_Fetch fetched_Console append_Nil2)
qed

lemma dispatch_valid:
  "validResults (fst (dispatch w img key models)) =
     List.map_filter (\<lambda>m. payload_of (openrouter w (action_request m key img))) models"
  by (induction models)
     (simp_all add: dispatch_settled validResults_def map_filter_simps split: option.split)

text \<open>
  Claim C5. For every world and every list of providers, the fan-out settles every
  call: each promise is fulfilled, with the parsed object or with \<^verbatim>\<open>null\<close>, none is
  rejected; the valid results are exactly the objects of the providers that answered
  with one, in the order of the providers; and the trace is one fetch for each provider,
  all started in the order of the list before any call settles, followed by one
  \<^verbatim>\<open>console.error\<close> for each call that throws, in the order in which the answers
  arrive. A failing call removes no fetch and no result of another call.
\<close>

theorem fan_out_settles_all:
  "fst (dispatch w img key models) =
     map (\<lambda>m. Fulfilled (payload_of (openrouter w (action_request m key img)))) models \<and>
   validResults (fst (dispatch w img key models)) =
     List.map_filter (\<lambda>m. payload_of (openrouter w (action_request m key img))) models \<and>
   snd (dispatch w img key models) =
     map (\<lambda>m. Fetch (action_request m key img)) models @
     map (\<lambda>m. Console (''Error with '' @ m @ '':''))
       (filter (\<lambda>m. throws (openrouter w (action_request m key img)))
          (sort_key (\<lambda>m. latency w (action_request m key img)) models))"
  by (intro conjI) (rule dispatch_settled dispatch_valid dispatch_events)+

text \<open>
  The claim at three providers of which the fastest answers with text that does not
  parse, the second succeeds and the slowest fails in transport.
\<close>

theorem fan_out_settles_all_example:
  "fst (dispatch partial_world ''img'' ''key'' aiProviders) =
     [Fulfilled None, Fulfilled (Some (answer [rice_A, beans] (Finite 320))), Fulfilled None] \<and>
   validResults (fst (dispatch partial_world ''img'' ''key'' aiProviders)) =
     [answer [rice_A, beans] (Finite 320)] \<and>
   snd (dispatch partial_world ''img'' ''key'' aiProviders) =
     [Fetch (action_request ''google/gemini-2.0-flash-exp'' ''key'' ''img''),
      Fetch (action_request ''anthropic/claude-3.5-sonnet'' ''key'' ''img''),
      Fetch (action_request ''openai/gpt-4o'' ''key'' ''img''),
      Console ''Error with openai/gpt-4o:'',
      Console ''Error with google/gemini-2.0-flash-exp:'']"
  using fan_out_settles_all [of partial_world "''img''" "''key''" aiProviders]
  by (simp add: run_defs world_defs)

text \<open>
  Claim C8. A provider call never throws. It returns \<^verbatim>\<open>null\<close> on a transport error,
  a response that is not ok, a body without the expected content, a content that does
  not parse and a content that parses to \<^verbatim>\<open>null\<close>; a content that parses to an
  object is returned as it is, whatever its item list.
\<close>

theorem provider_call_outcome:
  "fst (callOpenRouter w img m key) =
     (case openrouter w (action_request m key img) of
        Content (Json a) \<Rightarrow> Inr (Some a)
      | Content JsonNull \<Rightarrow> Inr None
      | Content (SyntaxError msg) \<Rightarrow> Inr None
      | BadBody msg \<Rightarrow> Inr None
      | HttpError status \<Rightarrow> Inr None
      | FetchRejects msg \<Rightarrow> Inr None)"
  by (simp add: callOpenRouter_def callOpenRouter_settle_def fetch_and_parse_def Let_def
      split: response.split parsed.split)

text \<open>
  An answer with an empty item list is a success of the provider call and a valid result
  of the fan-out.
\<close>

theorem empty_list_counterexample:
  "openrouter empty_world (action_request ''openai/gpt-4o'' ''key'' ''img'')
     = Content (Json \<lparr> items = Some [],
         totalNutrition = Some \<lparr> calories = Finite 0, carbs = Finite 0, fats = Finite 0,
           proteins = Finite 0 \<rparr>,
         providersUsed = None, confidence = None \<rparr>) \<and>
   fst (callOpenRouter empty_world ''img'' ''openai/gpt-4o'' ''key'')
     = Inr (Some \<lparr> items = Some [],
         totalNutrition = Some \<lparr> calories = Finite 0, carbs = Finite 0, fats = Finite 0,
           proteins = Finite 0 \<rparr>,
         providersUsed = None, confidence = None \<rparr>) \<and>
   validResults (fst (dispatch empty_world ''img'' ''key'' aiProviders))
     = [answer [] (Finite 0), answer [] (Finite 0), answer [] (Finite 0)]"
  by (simp add: run_defs world_defs answer_def)

section \<open>An empty merged item list\<close>

lemma reported_items_empty:
  "\<forall>r \<in> set results. items r = Some [] \<Longrightarrow> reported_items results = []"
  by (induction results) (simp_all add: reported_items_def)

lemma aggregate_empty_items:
  assumes "results \<noteq> []" and "\<forall>r \<in> set results. items r = Some []"
  shows "items (aggregateResults w results) = Some []"
proof (cases "length results = 1")
  case True
  then obtain r where "results = [r]" by (cases results) auto
  with assms(2) show ?thesis by (simp add: aggregateResults_def)
next
  case False
  then show ?thesis
    by (simp add: aggregate_multi finalItems_def foldl_put_result
        reported_items_empty [OF assms(2)] Map_values_def)
qed

lemma foodAnalysisAction_valid:
  assumes "validResults (fst (dispatch w img key models)) = results" and "results \<noteq> []"
  shows "fst (foodAnalysisAction w signing models img key) =
     (if signing then
        (case signEcdsa w (aggregateResults w results) of
           Inl msg \<Rightarrow> ActionFailure msg (now w)
         | Inr sg \<Rightarrow> ActionSuccess (aggregateResults w results) (Some sg) (now w) ''lit-protocol'')
      else ActionSuccess (aggregateResults w results) None (now w) ''lit-protocol'')"
  using assms
  by (cases "dispatch w img key models")
     (simp add: foodAnalysisAction_def Let_def split: sum.split)

lemma foodAnalysisAction_none:
  assumes "validResults (fst (dispatch w img key models)) = []"
  shows "fst (foodAnalysisAction w signing models img key) =
           ActionFailure ''All AI providers failed'' (now w)"
  using assms by (cases "dispatch w img key models") (simp add: foodAnalysisAction_def Let_def)

lemma foodAnalysisAction_events:
  "snd (foodAnalysisAction w signing models img key) = snd (dispatch w img key models)"
  by (cases "dispatch w img key models")
     (simp add: foodAnalysisAction_def Let_def split: sum.split)

lemma analyzeFoodImage_ready:
  assumes "litNodeClient s = Some True" and "executeJs w = None"
  shows "analyzeFoodImage w s img key =
           (Inr (fst (getFoodAnalysisCode w img key)),
            LitNetwork ''executeJs'' # snd (getFoodAnalysisCode w img key))"
  using assms by (simp add: analyzeFoodImage_def split: prod.split)

text \<open>
  What \<^verbatim>\<open>analyzeFood\<close> makes of the data of an action that succeeds, on an
  initialized, connected service whose action runs.
\<close>

lemma analyzeFood_of_data:
  assumes "wallet s = Some wl" and "litNodeClient s = Some True"
    and "createSiweMessage w wl = Inr authSig" and "executeJs w = None"
    and "validResults (fst (dispatch w img key embedded_aiProviders)) = results"
    and "results \<noteq> []"
  shows "fst (analyzeFood w s img key) =
     (case items (aggregateResults w results) of
        None \<Rightarrow> Inl (''Failed to analyze food: '' @ TypeError_map)
      | Some its \<Rightarrow>
          Inr \<lparr> items' = with_ids w its,
                totalNutrition' = totalNutrition (aggregateResults w results),
                providersUsed' =
                  (case providersUsed (aggregateResults w results) of
                     None \<Rightarrow> 1 | Some n \<Rightarrow> if n = 0 then 1 else n),
                confidence' =
                  (case confidence (aggregateResults w results) of
                     None \<Rightarrow> ''medium'' | Some c \<Rightarrow> if c = [] then ''medium'' else c),
                timestamp' = now w,
                network' = ''lit-protocol'',
                signature' = None \<rparr>)"
proof -
  have act: "fst (getFoodAnalysisCode w img key)
      = ActionSuccess (aggregateResults w results) None (now w) ''lit-protocol''"
    using foodAnalysisAction_valid [OF assms(5,6), of False]
    by (simp add: getFoodAnalysisCode_def)
  show ?thesis
    using assms(1,2,3) act
    by (simp add: analyzeFood_def analyzeFood_try_def createAuthSig_def
        analyzeFoodImage_ready [OF assms(2,4)] split: option.split)
qed

text \<open>
  Claim C2. When at least one provider call yields a valid result and every valid result
  reports an empty item array, the aggregator returns a result whose item list is empty
  and signals nothing; with two or more results it has zero totals, the number of
  results as provider count and confidence high. The action then fails only if it signs
  and the signer throws; otherwise it returns a success that holds the aggregated
  result. On an initialized, connected service whose action runs, \<^verbatim>\<open>analyzeFood\<close>
  returns to its caller an analysis with an empty item list and the totals of the
  aggregated result.
\<close>

theorem empty_merge_is_success:
  assumes "validResults (fst (dispatch w img key models)) = results"
    and "results \<noteq> []"
    and "\<forall>r \<in> set results. items r = Some []"
  shows "items (aggregateResults w results) = Some [] \<and>
         (2 \<le> length results \<longrightarrow>
            aggregateResults w results =
              \<lparr> items = Some [],
                totalNutrition =
                  Some \<lparr> calories = Finite 0, carbs = Finite 0, fats = Finite 0,
                         proteins = Finite 0 \<rparr>,
                providersUsed = Some (length results),
                confidence = Some ''high'' \<rparr>) \<and>
         fst (foodAnalysisAction w signing models img key) =
           (if signing then
              (case signEcdsa w (aggregateResults w results) of
                 Inl msg \<Rightarrow> ActionFailure msg (now w)
               | Inr sg \<Rightarrow>
                   ActionSuccess (aggregateResults w results) (Some sg) (now w) ''lit-protocol'')
            else ActionSuccess (aggregateResults w results) None (now w) ''lit-protocol'') \<and>
         (models = embedded_aiProviders \<and> wallet s = Some wl \<and> litNodeClient s = Some True \<and>
          createSiweMessage w wl = Inr authSig \<and> executeJs w = None \<longrightarrow>
            fst (analyzeFood w s img key) =
              Inr \<lparr> items' = [],
                    totalNutrition' = totalNutrition (aggregateResults w results),
                    providersUsed' =
                      (case providersUsed (aggregateResults w results) of
                         None \<Rightarrow> 1 | Some n \<Rightarrow> if n = 0 then 1 else n),
                    confidence' =
                      (case confidence (aggregateResults w results) of
                         None \<Rightarrow> ''medium'' | Some c \<Rightarrow> if c = [] then ''medium'' else c),
                    timestamp' = now w,
                    network' = ''lit-protocol'',
                    signature' = None \<rparr>)"
proof (intro conjI impI)
  show e: "items (aggregateResults w results) = Some []"
    using assms(2,3) by (rule aggregate_empty_items)
  show "fst (foodAnalysisAction w signing models img key) =
           (if signing then
              (case signEcdsa w (aggregateResults w results) of
                 Inl msg \<Rightarrow> ActionFailure msg (now w)
               | Inr sg \<Rightarrow>
                   ActionSuccess (aggregateResults w results) (Some sg) (now w) ''lit-protocol'')
            else ActionSuccess (aggregateResults w results) None (now w) ''lit-protocol'')"
    using assms(1,2) by (rule foodAnalysisAction_valid)
  {
    assume "2 \<le> length results"
    then have l: "length results \<noteq> 1" by simp
    have "finalItems w results = []"
      using e by (simp add: aggregate_multi [OF l])
    with \<open>2 \<le> length results\<close> show "aggregateResults w results =
              \<lparr> items = Some [],
                totalNutrition =
                  Some \<lparr> calories = Finite 0, carbs = Finite 0, fats = Finite 0,
                         proteins = Finite 0 \<rparr>,
                providersUsed = Some (length results),
                confidence = Some ''high'' \<rparr>"
      by (simp add: aggregate_multi [OF l] zero_nutrition_def)
  }
  {
    assume a: "models = embedded_aiProviders \<and> wallet s = Some wl \<and>
      litNodeClient s = Some True \<and> createSiweMessage w wl = Inr authSig \<and> executeJs w = None"
    then have v: "validResults (fst (dispatch w img key embedded_aiProviders)) = results"
      using assms(1) by simp
    from a have s: "wallet s = Some wl" "litNodeClient s = Some True"
      "createSiweMessage w wl = Inr authSig" "executeJs w = None" by simp_all
    show "fst (analyzeFood w s img key) =
              Inr \<lparr> items' = [],
                    totalNutrition' = totalNutrition (aggregateResults w results),
                    providersUsed' =
                      (case providersUsed (aggregateResults w results) of
                         None \<Rightarrow> 1 | Some n \<Rightarrow> if n = 0 then 1 else n),
                    confidence' =
                      (case confidence (aggregateResults w results) of
                         None \<Rightarrow> ''medium'' | Some c \<Rightarrow> if c = [] then ''medium'' else c),
                    timestamp' = now w,
                    network' = ''lit-protocol'',
                    signature' = None \<rparr>"
      by (simp add: analyzeFood_of_data [OF s v assms(2)] e with_ids_def)
  }
qed

text \<open>
  When every provider answers with an empty item list, the action and
  \<^verbatim>\<open>analyzeFood\<close> return an empty successful analysis.
\<close>

theorem empty_analysis_counterexample:
  "fst (food_analysis_js empty_world ''img'' ''key'') =
     ActionSuccess
       \<lparr> items = Some [],
         totalNutrition =
           Some \<lparr> calories = Finite 0, carbs = Finite 0, fats = Finite 0, proteins = Finite 0 \<rparr>,
         providersUsed = Some 3, confidence = Some ''high'' \<rparr>
       (Some ''signature'') 1700000000 ''lit-protocol'' \<and>
   fst (analyzeFood empty_world ready_service ''img'' ''key'') =
     Inr \<lparr> items' = [],
           totalNutrition' =
             Some \<lparr> calories = Finite 0, carbs = Finite 0, fats = Finite 0,
                    proteins = Finite 0 \<rparr>,
           providersUsed' = 2, confidence' = ''high'', timestamp' = 1700000000,
           network' = ''lit-protocol'', signature' = None \<rparr>"
  by (simp add: run_defs world_defs answer_def aggregateResults_def put_result_def
      Map_values_def zero_nutrition_def)

text \<open>The amended claim at two providers that both answer with no items.\<close>

theorem empty_merge_is_success_witness:
  "validResults (fst (dispatch empty_world ''img'' ''key'' embedded_aiProviders))
     = [answer [] (Finite 0), answer [] (Finite 0)] \<and>
   items (answer [] (Finite 0)) = Some [] \<and>
   wallet ready_service = Some RandomWallet \<and> litNodeClient ready_service = Some True \<and>
   createSiweMessage empty_world RandomWallet = Inr ''authSig'' \<and>
   executeJs empty_world = None \<and>
   aggregateResults empty_world [answer [] (Finite 0), answer [] (Finite 0)] =
     \<lparr> items = Some [],
       totalNutrition =
         Some \<lparr> calories = Finite 0, carbs = Finite 0, fats = Finite 0, proteins = Finite 0 \<rparr>,
       providersUsed = Some 2, confidence = Some ''high'' \<rparr> \<and>
   fst (foodAnalysisAction empty_world False embedded_aiProviders ''img'' ''key'') =
     ActionSuccess (aggregateResults empty_world [answer [] (Finite 0), answer [] (Finite 0)])
       None 1700000000 ''lit-protocol'' \<and>
   fst (analyzeFood empty_world ready_service ''img'' ''key'') =
     Inr \<lparr> items' = [],
           totalNutrition' =
             Some \<lparr> calories = Finite 0, carbs = Finite 0, fats = Finite 0,
                    proteins = Finite 0 \<rparr>,
           providersUsed' = 2, confidence' = ''high'', timestamp' = 1700000000,
           network' = ''lit-protocol'', signature' = None \<rparr>"
proof -
  let ?rs = "[answer [] (Finite 0), answer [] (Finite 0)]"
  have h1: "validResults (fst (dispatch empty_world ''img'' ''key'' embedded_aiProviders)) = ?rs"
    by (simp add: run_defs world_defs)
  have h2: "?rs \<noteq> []" by simp
  have h3: "\<forall>r \<in> set ?rs. items r = Some []" by (simp add: answer_def)
  have h5: "items (answer [] (Finite 0)) = Some []" by (simp add: answer_def)
  have s: "wallet ready_service = Some RandomWallet" "litNodeClient ready_service = Some True"
    "createSiweMessage empty_world RandomWallet = Inr ''authSig''"
    "executeJs empty_world = None" "now empty_world = 1700000000"
    by (simp_all add: world_defs)
  note t = empty_merge_is_success [OF h1 h2 h3, of False ready_service RandomWallet "''authSig''"]
  from t have a: "aggregateResults empty_world ?rs =
     \<lparr> items = Some [],
       totalNutrition =
         Some \<lparr> calories = Finite 0, carbs = Finite 0, fats = Finite 0, proteins = Finite 0 \<rparr>,
       providersUsed = Some 2, confidence = Some ''high'' \<rparr>"
    by simp
  from t s show ?thesis by (simp add: h1 h5 a)
qed

section \<open>One successful provider\<close>

lemma item_of_with_ids_aux:
  "map item_of (map (\<lambda>(i, it).
            \<lparr> calories = calories it, carbs = carbs it, fats = fats it,
              proteins = proteins it, name = name it, quantity = quantity it,
              unit = unit it, id' = random_id w i \<rparr>) (enumerate n its)) = its"
  by (induction its arbitrary: n) (simp_all add: item_of_def)

lemma item_of_with_ids: "map item_of (with_ids w its) = its"
  by (simp only: with_ids_def item_of_with_ids_aux)

text \<open>
  Claim C6. On an initialized, connected service whose action runs, when exactly one
  provider call yields a valid result, the aggregator returns that object itself. If
  the object has an item array, \<^verbatim>\<open>analyzeFood\<close> returns its items, each with an id
  and otherwise as reported, its totals as reported, the network tag of the
  multi-provider path, the provider count of the object if it has one that is not 0 and
  else 1, and the confidence of the object if it has one that is not empty and else
  medium. If the object has no \<^verbatim>\<open>items\<close>, \<^verbatim>\<open>analyzeFood\<close> throws the type error of
  reading \<^verbatim>\<open>map\<close> of \<^verbatim>\<open>undefined\<close>.
\<close>

theorem single_success_pass_through:
  assumes "wallet s = Some wl" and "litNodeClient s = Some True"
    and "createSiweMessage w wl = Inr authSig" and "executeJs w = None"
    and "validResults (fst (dispatch w img key embedded_aiProviders)) = [r]"
  shows "aggregateResults w [r] = r \<and>
         fst (analyzeFood w s img key) =
           (case items r of
              None \<Rightarrow> Inl (''Failed to analyze food: '' @ TypeError_map)
            | Some its \<Rightarrow>
                Inr \<lparr> items' = with_ids w its,
                      totalNutrition' = totalNutrition r,
                      providersUsed' =
                        (case providersUsed r of
                           None \<Rightarrow> 1 | Some n \<Rightarrow> if n = 0 then 1 else n),
                      confidence' =
                        (case confidence r of
                           None \<Rightarrow> ''medium'' | Some c \<Rightarrow> if c = [] then ''medium'' else c),
                      timestamp' = now w,
                      network' = ''lit-protocol'',
                      signature' = None \<rparr>) \<and>
         map item_of (with_ids w its) = its"
proof -
  have a: "aggregateResults w [r] = r" by (simp add: aggregateResults_def)
  have n: "[r] \<noteq> []" by simp
  show ?thesis
    using analyzeFood_of_data [OF assms n] unfolding a by (simp add: item_of_with_ids)
qed

text \<open>
  A lone provider whose object says \<^verbatim>\<open>providersUsed: 3\<close> and \<^verbatim>\<open>confidence: 'high'\<close>
  is reported with provider count 3 and confidence high; a lone provider whose object
  has no items makes \<^verbatim>\<open>analyzeFood\<close> throw.
\<close>

theorem single_success_counterexample:
  "validResults (fst (dispatch boasting_world ''img'' ''key'' embedded_aiProviders)) =
     [(answer [rice_A] (Finite 200)) \<lparr> providersUsed := Some 3, confidence := Some ''high'' \<rparr>] \<and>
   fst (analyzeFood boasting_world ready_service ''img'' ''key'') =
     Inr \<lparr> items' = with_ids boasting_world [rice_A],
           totalNutrition' =
             Some \<lparr> calories = Finite 200, carbs = Finite 0, fats = Finite 0,
                    proteins = Finite 0 \<rparr>,
           providersUsed' = 3, confidence' = ''high'', timestamp' = 1700000000,
           network' = ''lit-protocol'', signature' = None \<rparr> \<and>
   validResults (fst (dispatch itemless_world ''img'' ''key'' embedded_aiProviders)) =
     [(answer [] (Finite 0)) \<lparr> items := None \<rparr>] \<and>
   fst (analyzeFood itemless_world ready_service ''img'' ''key'') =
     Inl ''Failed to analyze food: Cannot read properties of undefined (reading 'map')''"
  by (simp add: run_defs world_defs answer_def aggregateResults_def TypeError_map_def)

text \<open>
  The amended claim at the partial failure of the specification: one provider fails in
  transport, one succeeds with an object of the requested shape.
\<close>

theorem single_success_pass_through_witness:
  "wallet ready_service = Some RandomWallet \<and> litNodeClient ready_service = Some True \<and>
   createSiweMessage partial_world RandomWallet = Inr ''authSig'' \<and>
   executeJs partial_world = None \<and>
   validResults (fst (dispatch partial_world ''img'' ''key'' embedded_aiProviders))
     = [answer [rice_A, beans] (Finite 320)] \<and>
   aggregateResults partial_world [answer [rice_A, beans] (Finite 320)]
     = answer [rice_A, beans] (Finite 320) \<and>
   fst (analyzeFood partial_world ready_service ''img'' ''key'') =
     Inr \<lparr> items' = with_ids partial_world [rice_A, beans],
           totalNutrition' =
             Some \<lparr> calories = Finite 320, carbs = Finite 0, fats = Finite 0,
                    proteins = Finite 0 \<rparr>,
           providersUsed' = 1, confidence' = ''medium'', timestamp' = 1700000000,
           network' = ''lit-protocol'', signature' = None \<rparr> \<and>
   map item_of (with_ids partial_world [rice_A, beans]) = [rice_A, beans]"
proof -
  have h1: "wallet ready_service = Some RandomWallet" by (simp add: world_defs)
  have h2: "litNodeClient ready_service = Some True" by (simp add: world_defs)
  have h3: "createSiweMessage partial_world RandomWallet = Inr ''authSig''"
    by (simp add: world_defs)
  have h4: "executeJs partial_world = None" by (simp add: world_defs)
  have h5: "validResults (fst (dispatch partial_world ''img'' ''key'' embedded_aiProviders))
     = [answer [rice_A, beans] (Finite 320)]"
    by (simp add: run_defs world_defs)
  have n: "now partial_world = 1700000000" by (simp add: world_defs)
  show ?thesis
    using single_success_pass_through [OF h1 h2 h3 h4 h5, of "[rice_A, beans]"]
    by (simp add: h1 h2 h3 h4 h5 n answer_def)
qed

section \<open>The fallback\<close>

lemma action_request_title: "title (action_request m key img) \<noteq> ''Cloe - AI Health Assistant (Fallback)''"
  by (simp add: action_request_def)

lemma dispatch_no_fallback:
  "filter (\<lambda>q. title q = ''Cloe - AI Health Assistant (Fallback)'')
     (fetched (snd (dispatch w img key models))) = []"
  by (simp add: dispatch_fetched filter_map comp_def action_request_def)

lemma analyzeFoodImage_fetched:
  "fetched (snd (analyzeFoodImage w s img key)) = [] \<or>
   fetched (snd (analyzeFoodImage w s img key)) =
     fetched (snd (dispatch w img key embedded_aiProviders))"
  using foodAnalysisAction_events [of w False embedded_aiProviders img key]
  by (auto simp: analyzeFoodImage_def getFoodAnalysisCode_def split: option.split prod.split)

lemma analyzeFood_try_fetched:
  "fetched (snd (analyzeFood_try w s wl img key)) = [] \<or>
   fetched (snd (analyzeFood_try w s wl img key)) =
     fetched (snd (dispatch w img key embedded_aiProviders))"
proof -
  have a: "fetched (snd (createAuthSig w s wl)) = []"
    by (simp add: createAuthSig_def split: sum.split)
  have "fetched (snd (analyzeFood_try w s wl img key)) = [] \<or>
    fetched (snd (analyzeFood_try w s wl img key)) = fetched (snd (analyzeFoodImage w s img key))"
    using a
    by (cases "createAuthSig w s wl"; cases "analyzeFoodImage w s img key")
       (auto simp: analyzeFood_try_def fetched_append
          split: sum.split action_result.split option.split)
  with analyzeFoodImage_fetched [of w s img key] show ?thesis by auto
qed

lemma analyzeFood_fetched:
  "fetched (snd (analyzeFood w s img key)) = [] \<or>
   fetched (snd (analyzeFood w s img key)) =
     fetched (snd (dispatch w img key embedded_aiProviders))"
proof (cases "wallet s")
  case None
  then show ?thesis by (simp add: analyzeFood_def)
next
  case (Some wl)
  have "fetched (snd (analyzeFood w s img key)) = fetched (snd (analyzeFood_try w s wl img key))"
    by (cases "analyzeFood_try w s wl img key")
       (auto simp: analyzeFood_def Some fetched_append split: sum.split)
  with analyzeFood_try_fetched [of w s wl img key] show ?thesis by auto
qed

lemma analyzeFood_no_fallback:
  "filter (\<lambda>q. title q = ''Cloe - AI Health Assistant (Fallback)'')
     (fetched (snd (analyzeFood w s img key))) = []"
  using analyzeFood_fetched [of w s img key] dispatch_no_fallback [of w img key embedded_aiProviders]
  by auto

lemma analyzeFood_try_fails:
  assumes "validResults (fst (dispatch w img key embedded_aiProviders)) = []"
  shows "\<exists>e. fst (analyzeFood_try w s wl img key) = Inl e"
proof -
  have act: "fst (getFoodAnalysisCode w img key) = ActionFailure ''All AI providers failed'' (now w)"
    using foodAnalysisAction_none [OF assms] by (simp add: getFoodAnalysisCode_def)
  then have "\<exists>e. fst (analyzeFoodImage w s img key) = Inl e \<or>
      fst (analyzeFoodImage w s img key) = Inr (ActionFailure ''All AI providers failed'' (now w))"
    by (cases "getFoodAnalysisCode w img key")
       (auto simp: analyzeFoodImage_def split: option.split)
  then show ?thesis
    by (cases "createAuthSig w s wl"; cases "analyzeFoodImage w s img key")
       (auto simp: analyzeFood_try_def split: sum.split)
qed

lemma analyzeFood_fails:
  assumes "validResults (fst (dispatch w img key embedded_aiProviders)) = []"
  shows "\<exists>e. fst (analyzeFood w s img key) = Inl e"
proof (cases "wallet s")
  case None
  then show ?thesis by (simp add: analyzeFood_def)
next
  case (Some wl)
  from analyzeFood_try_fails [OF assms, of s wl] obtain e
    where "fst (analyzeFood_try w s wl img key) = Inl e" by blast
  then show ?thesis
    by (cases "analyzeFood_try w s wl img key") (simp add: analyzeFood_def Some)
qed

lemma analyzeFoodFallback_success:
  assumes "openrouter w (fallback_request key img) = Content (Json r)" and "items r = Some its"
  shows "analyzeFoodFallback w img key =
     (Inr \<lparr> items' = with_ids w its, totalNutrition' = totalNutrition r,
            providersUsed' = 1, confidence' = ''low'', timestamp' = now w,
            network' = ''centralized-fallback'', signature' = None \<rparr>,
      [Console ''Using fallback centralized analysis'', Fetch (fallback_request key img)])"
  using assms by (simp add: analyzeFoodFallback_def fetch_and_parse_def Let_def)

lemma analyzeImage_try_fallback:
  assumes "key \<noteq> []" and "fst (analyzeFood w s img key) = Inl e"
    and "analyzeFoodFallback w img key = (Inr result, evs')"
  shows "analyzeImage_try w (Some key) (Some s) img =
     (Inr (result, fallback_metadata),
      snd (analyzeFood w s img key)
        @ [Console ''Lit Protocol analysis failed, using fallback:''] @ evs')"
  using assms by (cases "analyzeFood w s img key") (simp add: analyzeImage_try_def)

text \<open>
  Claim C4. With a stored API key and a service, when no provider call of the action
  yields a valid result and the fallback request is answered with an object that has an
  item array, \<^verbatim>\<open>analyzeImage\<close> ends with the result of \<^verbatim>\<open>analyzeFoodFallback\<close>:
  network tag centralized-fallback, confidence low, provider count 1, and the same in
  the metadata. The requests fetched are those of the one attempt followed by the
  fallback request: it is fetched once, and it is the last thing done.
\<close>

theorem fallback_after_total_failure:
  assumes "key \<noteq> []"
    and "validResults (fst (dispatch w img key embedded_aiProviders)) = []"
    and "openrouter w (fallback_request key img) = Content (Json r)"
    and "items r = Some its"
  shows "fst (analyzeImage_try w (Some key) (Some s) img) =
           Inr (\<lparr> items' = with_ids w its, totalNutrition' = totalNutrition r,
                   providersUsed' = 1, confidence' = ''low'', timestamp' = now w,
                   network' = ''centralized-fallback'', signature' = None \<rparr>,
                fallback_metadata) \<and>
         fetched (snd (analyzeImage_try w (Some key) (Some s) img)) =
           fetched (snd (analyzeFood w s img key)) @ [fallback_request key img] \<and>
         filter (\<lambda>q. title q = ''Cloe - AI Health Assistant (Fallback)'')
           (fetched (snd (analyzeImage_try w (Some key) (Some s) img))) =
           [fallback_request key img] \<and>
         last (snd (analyzeImage_try w (Some key) (Some s) img)) =
           Fetch (fallback_request key img) \<and>
         foodItems (fst (analyzeImage w (Some key) (Some s) img ui)) = with_ids w its \<and>
         metadata (fst (analyzeImage w (Some key) (Some s) img ui)) = fallback_metadata \<and>
         error (fst (analyzeImage w (Some key) (Some s) img ui)) = None"
proof -
  from analyzeFood_fails [OF assms(2), of s] obtain e
    where e: "fst (analyzeFood w s img key) = Inl e" by blast
  note t = analyzeImage_try_fallback [OF assms(1) e analyzeFoodFallback_success [OF assms(3,4)]]
  have f: "fetched (snd (analyzeImage_try w (Some key) (Some s) img)) =
           fetched (snd (analyzeFood w s img key)) @ [fallback_request key img]"
    by (simp add: t fetched_append)
  have "title (fallback_request key img) = ''Cloe - AI Health Assistant (Fallback)''"
    by (simp add: fallback_request_def)
  then have g: "filter (\<lambda>q. title q = ''Cloe - AI Health Assistant (Fallback)'')
           (fetched (snd (analyzeImage_try w (Some key) (Some s) img))) =
           [fallback_request key img]"
    by (simp add: f analyzeFood_no_fallback)
  have r1: "fst (analyzeImage_try w (Some key) (Some s) img) =
           Inr (\<lparr> items' = with_ids w its, totalNutrition' = totalNutrition r,
                   providersUsed' = 1, confidence' = ''low'', timestamp' = now w,
                   network' = ''centralized-fallback'', signature' = None \<rparr>,
                fallback_metadata)"
    by (simp add: t)
  have l: "last (snd (analyzeImage_try w (Some key) (Some s) img)) =
           Fetch (fallback_request key img)"
    by (simp add: t)
  have u: "foodItems (fst (analyzeImage w (Some key) (Some s) img ui)) = with_ids w its"
    "metadata (fst (analyzeImage w (Some key) (Some s) img ui)) = fallback_metadata"
    "error (fst (analyzeImage w (Some key) (Some s) img ui)) = None"
    by (simp_all add: analyzeImage_def t Let_def)
  show ?thesis
    by (intro conjI) (rule r1 f g l u)+
qed

text \<open>The claim in a world where OpenRouter refuses the action and answers the fallback.\<close>

theorem fallback_after_total_failure_witness:
  "''key'' \<noteq> [] \<and>
   validResults (fst (dispatch fallback_world ''img'' ''key'' embedded_aiProviders)) = [] \<and>
   openrouter fallback_world (fallback_request ''key'' ''img'')
     = Content (Json (answer [rice_A] (Finite 200))) \<and>
   items (answer [rice_A] (Finite 200)) = Some [rice_A] \<and>
   fst (analyzeImage_try fallback_world (Some ''key'') (Some ready_service) ''img'') =
     Inr (\<lparr> items' = with_ids fallback_world [rice_A],
             totalNutrition' = Some \<lparr> calories = Finite 200, carbs = Finite 0, fats = Finite 0, proteins = Finite 0 \<rparr>,
             providersUsed' = 1, confidence' = ''low'', timestamp' = 1700000000,
             network' = ''centralized-fallback'', signature' = None \<rparr>,
          fallback_metadata) \<and>
   filter (\<lambda>q. title q = ''Cloe - AI Health Assistant (Fallback)'')
     (fetched (snd (analyzeImage_try fallback_world (Some ''key'') (Some ready_service) ''img'')))
     = [fallback_request ''key'' ''img''] \<and>
   last (snd (analyzeImage_try fallback_world (Some ''key'') (Some ready_service) ''img''))
     = Fetch (fallback_request ''key'' ''img'')"
proof -
  have h1: "''key'' \<noteq> []" by simp
  have h2: "validResults (fst (dispatch fallback_world ''img'' ''key'' embedded_aiProviders)) = []"
    by (simp add: run_defs world_defs)
  have h3: "openrouter fallback_world (fallback_request ''key'' ''img'')
     = Content (Json (answer [rice_A] (Finite 200)))"
    by (simp add: world_defs fallback_request_def)
  have h4: "items (answer [rice_A] (Finite 200)) = Some [rice_A]" by (simp add: answer_def)
  have t: "totalNutrition (answer [rice_A] (Finite 200))
      = Some \<lparr> calories = Finite 200, carbs = Finite 0, fats = Finite 0, proteins = Finite 0 \<rparr>"
    and n: "now fallback_world = 1700000000"
    by (simp_all add: answer_def world_defs)
  note th = fallback_after_total_failure [OF h1 h2 h3 h4, of ready_service, unfolded t n]
  from th h1 h2 h3 h4 show ?thesis by blast
qed

section \<open>The wallet of the service\<close>

lemma connect_wallet: "wallet (snd (connect w s)) = wallet s"
  by (simp add: connect_def split: option.split)

lemma initialize_keeps_wallet:
  "wallet s \<noteq> None \<Longrightarrow> wallet (snd (initialize w privateKey s)) \<noteq> None"
  using connect_wallet [of w s]
  by (cases "connect w s") (auto simp: initialize_def split: sum.split)

lemma initialize_sets_wallet:
  "initialize w privateKey s = (Inr (), s') \<Longrightarrow> wallet s' \<noteq> None"
  by (cases "connect w s") (auto simp: initialize_def split: sum.splits if_splits)

lemma perform_keeps_wallet:
  "wallet s \<noteq> None \<Longrightarrow> c \<noteq> Disconnect \<Longrightarrow> wallet (perform w s c) \<noteq> None"
  by (cases c) (simp_all add: initialize_keeps_wallet)

lemma foldl_perform_keeps_wallet:
  "wallet s \<noteq> None \<Longrightarrow> Disconnect \<notin> set calls \<Longrightarrow> wallet (foldl (perform w) s calls) \<noteq> None"
proof (induction calls arbitrary: s)
  case Nil
  then show ?case by simp
next
  case (Cons c calls)
  from Cons.prems have "wallet (perform w s c) \<noteq> None"
    by (intro perform_keeps_wallet) auto
  with Cons show ?case by simp
qed

text \<open>
  Claim C10. While the wallet is \<^verbatim>\<open>null\<close>, \<^verbatim>\<open>analyzeFood\<close> throws
  \<^verbatim>\<open>Service not initialized. Call initialize() first.\<close> and does nothing else: its trace
  is empty. Once \<^verbatim>\<open>initialize\<close> has returned, the wallet is set and stays set through
  every sequence of calls without \<^verbatim>\<open>disconnect\<close>; a \<^verbatim>\<open>disconnect\<close> that
  returns leaves it \<^verbatim>\<open>null\<close>.
\<close>

theorem not_initialized_guard:
  "(wallet s = None \<longrightarrow>
      analyzeFood w s img key
        = (Inl ''Service not initialized. Call initialize() first.'', [])) \<and>
   (initialize w privateKey s0 = (Inr (), s1) \<and> Disconnect \<notin> set calls \<longrightarrow>
      wallet s1 \<noteq> None \<and> wallet (foldl (perform w) s1 calls) \<noteq> None) \<and>
   (disconnect w s2 = (Inr (), s3) \<longrightarrow> wallet s3 = None)"
proof (intro conjI impI)
  assume "wallet s = None"
  then show "analyzeFood w s img key
        = (Inl ''Service not initialized. Call initialize() first.'', [])"
    by (simp add: analyzeFood_def)
next
  assume a: "initialize w privateKey s0 = (Inr (), s1) \<and> Disconnect \<notin> set calls"
  then have i: "initialize w privateKey s0 = (Inr (), s1)" and d: "Disconnect \<notin> set calls"
    by simp_all
  from i show s1: "wallet s1 \<noteq> None" by (rule initialize_sets_wallet)
  from s1 d show "wallet (foldl (perform w) s1 calls) \<noteq> None"
    by (rule foldl_perform_keeps_wallet)
next
  assume "disconnect w s2 = (Inr (), s3)"
  then show "wallet s3 = None"
    by (auto simp: disconnect_def split: if_splits)
qed

text \<open>The claim on a new service: the guard, then initialize, calls, disconnect.\<close>

theorem not_initialized_guard_witness:
  "wallet new_service = None \<and>
   analyzeFood empty_world new_service ''img'' ''key''
     = (Inl ''Service not initialized. Call initialize() first.'', []) \<and>
   initialize empty_world None new_service = (Inr (), ready_service) \<and>
   Disconnect \<notin> set [AnalyzeFood ''img'' ''key'', Initialize (Some ''0xabc''), GetWalletAddress] \<and>
   wallet ready_service \<noteq> None \<and>
   wallet (foldl (perform empty_world) ready_service
             [AnalyzeFood ''img'' ''key'', Initialize (Some ''0xabc''), GetWalletAddress]) \<noteq> None \<and>
   disconnect empty_world ready_service = (Inr (), new_service) \<and>
   wallet new_service = None"
proof -
  have h1: "wallet new_service = None" by (simp add: world_defs)
  have h2: "initialize empty_world None new_service = (Inr (), ready_service)"
    by (simp add: initialize_def connect_def world_defs)
  have h3: "Disconnect \<notin> set [AnalyzeFood ''img'' ''key'', Initialize (Some ''0xabc''), GetWalletAddress]"
    by simp
  have h4: "disconnect empty_world ready_service = (Inr (), new_service)"
    by (simp add: disconnect_def world_defs)
  from not_initialized_guard [of new_service empty_world "''img''" "''key''" None new_service
      ready_service "[AnalyzeFood ''img'' ''key'', Initialize (Some ''0xabc''), GetWalletAddress]"
      ready_service new_service] h1 h2 h3 h4
  show ?thesis by simp
qed

end
